theory Spec2Isabelle
  imports Main
begin

section \<open>Detection of Go projects (internal/project/auto/golang.go)\<close>

subsection \<open>Data\<close>

text \<open>
  Errors of the operating system calls. \<open>os.IsNotExist\<close> separates the one the
  detector treats as "not applicable" from all the others.
\<close>

datatype error = ErrNotExist | ErrPermission | ErrOther string

fun IsNotExist :: "error \<Rightarrow> bool" where
  "IsNotExist ErrNotExist = True"
| "IsNotExist _ = False"

text \<open>A directory entry as \<open>ioutil.ReadDir\<close> returns it: \<open>item.Name()\<close>, \<open>item.IsDir()\<close>.\<close>

record FileInfo =
  Name :: string
  IsDir :: bool

text \<open>
  Modelled from the spec: the struct \<open>meta.Options\<close> is declared outside this file. The
  record has the fields the detector and the builder use; the spec calls them
  canonicalIdentity (\<open>CanonicalPath\<close>), sourceRoots (\<open>Directories\<close>),
  ecosystemSourceRoots (\<open>GoDirectories\<close>), rootFiles (\<open>SourceFiles\<close>),
  ecosystemRootFiles (\<open>GoSourceFiles\<close>), versionPackagePath (\<open>VersionPackage\<close>) and
  commands (\<open>Commands\<close>). Every function below works on the extensible record, so
  any further field of the struct is carried along untouched.
\<close>

record Options =
  CanonicalPath :: string
  Directories :: "string list"
  GoDirectories :: "string list"
  SourceFiles :: "string list"
  GoSourceFiles :: "string list"
  VersionPackage :: string
  Commands :: "string list"

text \<open>
  The file system as the detector sees it: the answers of \<open>os.Open\<close>,
  \<open>ioutil.ReadAll\<close> and \<open>ioutil.ReadDir\<close>. An open file is named by a descriptor.
  The detector only reads, and the file system does not change while it runs, so a
  call repeated with the same argument gets the same answer: the answers are functions.

  Modelled from the spec: the helper \<open>directoryExists(rootPath, name)\<close> is defined
  elsewhere in the package. It is taken as a parameter, the field \<open>directoryExists\<close>:
  it "checks existence directly under root" and either answers or fails with an
  error.
\<close>

record FS =
  Open :: "string \<Rightarrow> error + nat"
  ReadAll :: "nat \<Rightarrow> error + string"
  ReadDir :: "string \<Rightarrow> error + FileInfo list"
  directoryExists :: "string \<Rightarrow> string \<Rightarrow> error + bool"

text \<open>
  The pure library functions the code calls and that are not part of the repository:
  \<open>filepath.Join\<close>, \<open>path.Join\<close> and \<open>modfile.ModulePath\<close>. They are parameters.
\<close>

record Lib =
  filepath_Join :: "string \<Rightarrow> string \<Rightarrow> string"
  path_Join :: "string \<Rightarrow> string \<Rightarrow> string"
  ModulePath :: "string \<Rightarrow> string"

text \<open>\<open>strings.HasSuffix(s, suffix)\<close>.\<close>

definition HasSuffix :: "string \<Rightarrow> string \<Rightarrow> bool" where
  "HasSuffix s suffix =
     (length suffix \<le> length s \<and> drop (length s - length suffix) s = suffix)"

subsection \<open>hasGoFiles\<close>

text \<open>The loop of \<open>hasGoFiles\<close>: it returns at the first plain file named \<open>*.go\<close>.\<close>

fun anyGoFile :: "FileInfo list \<Rightarrow> bool" where
  "anyGoFile [] = False"
| "anyGoFile (item # rest) =
     (if \<not> IsDir item \<and> HasSuffix (Name item) ''.go'' then True else anyGoFile rest)"

definition hasGoFiles :: "FS \<Rightarrow> string \<Rightarrow> error + bool" where
  "hasGoFiles fs p =
     (case ReadDir fs p of
        Inl err \<Rightarrow> Inl err
      | Inr contents \<Rightarrow> Inr (anyGoFile contents))"

subsection \<open>The loops of DetectGolang\<close>

text \<open>
  Every loop takes the descriptor and returns it with the error that ended the loop, if
  any: the code returns \<open>true, err\<close> from inside a loop and leaves in the descriptor
  what it had appended so far.
\<close>

text \<open>Lines 48-58: the conventional source directories.\<close>

definition srcDirs :: "string list" where
  "srcDirs = [''src'', ''internal'', ''pkg'', ''cmd'']"

fun srcDirLoop ::
  "FS \<Rightarrow> string \<Rightarrow> string list \<Rightarrow> 'a Options_scheme \<Rightarrow> error option \<times> 'a Options_scheme"
where
  "srcDirLoop fs rootPath [] options = (None, options)"
| "srcDirLoop fs rootPath (srcDir # rest) options =
     (case directoryExists fs rootPath srcDir of
        Inl err \<Rightarrow> (Some err, options)
      | Inr exists \<Rightarrow>
          srcDirLoop fs rootPath rest
            (if exists
             then options\<lparr>Directories := Directories options @ [srcDir],
                          GoDirectories := GoDirectories options @ [srcDir]\<rparr>
             else options))"

text \<open>Lines 67-81: every immediate subdirectory that directly holds a \<open>.go\<close> file.\<close>

fun topLevelLoop ::
  "Lib \<Rightarrow> FS \<Rightarrow> string \<Rightarrow> FileInfo list \<Rightarrow> 'a Options_scheme \<Rightarrow>
   error option \<times> 'a Options_scheme"
where
  "topLevelLoop lib fs rootPath [] options = (None, options)"
| "topLevelLoop lib fs rootPath (item # rest) options =
     (if \<not> IsDir item then topLevelLoop lib fs rootPath rest options
      else case hasGoFiles fs (filepath_Join lib rootPath (Name item)) of
        Inl err \<Rightarrow> (Some err, options)
      | Inr result \<Rightarrow>
          topLevelLoop lib fs rootPath rest
            (if result
             then options\<lparr>Directories := Directories options @ [Name item],
                          GoDirectories := GoDirectories options @ [Name item]\<rparr>
             else options))"

text \<open>Lines 60-82: the fallback, guarded by \<open>len(options.GoDirectories) == 0\<close>.\<close>

definition fallbackScan ::
  "Lib \<Rightarrow> FS \<Rightarrow> string \<Rightarrow> 'a Options_scheme \<Rightarrow> error option \<times> 'a Options_scheme"
where
  "fallbackScan lib fs rootPath options =
     (case ReadDir fs rootPath of
        Inl err \<Rightarrow> (Some err, options)
      | Inr topLevel \<Rightarrow> topLevelLoop lib fs rootPath topLevel options)"

definition fallbackStep ::
  "Lib \<Rightarrow> FS \<Rightarrow> string \<Rightarrow> 'a Options_scheme \<Rightarrow> error option \<times> 'a Options_scheme"
where
  "fallbackStep lib fs rootPath options =
     (if length (GoDirectories options) = 0 then fallbackScan lib fs rootPath options
      else (None, options))"

text \<open>Lines 96-101: the plain \<open>.go\<close> files of the root directory.\<close>

fun rootFileLoop :: "FileInfo list \<Rightarrow> 'a Options_scheme \<Rightarrow> 'a Options_scheme" where
  "rootFileLoop [] options = options"
| "rootFileLoop (item # rest) options =
     rootFileLoop rest
       (if \<not> IsDir item \<and> HasSuffix (Name item) ''.go''
        then options\<lparr>SourceFiles := SourceFiles options @ [Name item],
                     GoSourceFiles := GoSourceFiles options @ [Name item]\<rparr>
        else options)"

text \<open>Lines 84-103.\<close>

definition rootFilesStep ::
  "FS \<Rightarrow> string \<Rightarrow> 'a Options_scheme \<Rightarrow> error option \<times> 'a Options_scheme"
where
  "rootFilesStep fs rootPath options =
     (case hasGoFiles fs rootPath of
        Inl err \<Rightarrow> (Some err, options)
      | Inr res \<Rightarrow>
          if res
          then (case ReadDir fs rootPath of
                  Inl err \<Rightarrow> (Some err, options)
                | Inr contents \<Rightarrow> (None, rootFileLoop contents options))
          else (None, options))"

text \<open>Lines 107-116: the version package. The loop has no \<open>break\<close>.\<close>

definition versionCandidates :: "string list" where
  "versionCandidates = [''pkg/version'', ''internal/version'']"

fun versionLoop ::
  "Lib \<Rightarrow> FS \<Rightarrow> string \<Rightarrow> string list \<Rightarrow> 'a Options_scheme \<Rightarrow>
   error option \<times> 'a Options_scheme"
where
  "versionLoop lib fs rootPath [] options = (None, options)"
| "versionLoop lib fs rootPath (candidate # rest) options =
     (case directoryExists fs rootPath candidate of
        Inl err \<Rightarrow> (Some err, options)
      | Inr exists \<Rightarrow>
          versionLoop lib fs rootPath rest
            (if exists
             then options\<lparr>VersionPackage := path_Join lib (CanonicalPath options) candidate\<rparr>
             else options))"

text \<open>Lines 130-134: the subdirectories of \<open>cmd\<close>.\<close>

fun commandLoop :: "FileInfo list \<Rightarrow> 'a Options_scheme \<Rightarrow> 'a Options_scheme" where
  "commandLoop [] options = options"
| "commandLoop (dir # rest) options =
     commandLoop rest
       (if IsDir dir then options\<lparr>Commands := Commands options @ [Name dir]\<rparr> else options)"

text \<open>Lines 118-136.\<close>

definition commandsStep ::
  "Lib \<Rightarrow> FS \<Rightarrow> string \<Rightarrow> 'a Options_scheme \<Rightarrow> error option \<times> 'a Options_scheme"
where
  "commandsStep lib fs rootPath options =
     (case directoryExists fs rootPath ''cmd'' of
        Inl err \<Rightarrow> (Some err, options)
      | Inr cmdExists \<Rightarrow>
          if cmdExists
          then (case ReadDir fs (filepath_Join lib rootPath ''cmd'') of
                  Inl err \<Rightarrow> (Some err, options)
                | Inr dirs \<Rightarrow> (None, commandLoop dirs options))
          else (None, options))"

subsection \<open>DetectGolang\<close>

text \<open>
  Lines 46-138, once the manifest has been read: every return of this part is
  \<open>true, err\<close>. A step that fails ends the run with its error and with the descriptor
  as that step left it.
\<close>

definition detectBody ::
  "Lib \<Rightarrow> FS \<Rightarrow> string \<Rightarrow> string \<Rightarrow> 'a Options_scheme \<Rightarrow>
   error option \<times> 'a Options_scheme"
where
  "detectBody lib fs rootPath contents options =
     (case srcDirLoop fs rootPath srcDirs (options\<lparr>CanonicalPath := ModulePath lib contents\<rparr>) of
        (Some err, o1) \<Rightarrow> (Some err, o1)
      | (None, o1) \<Rightarrow>
     (case fallbackStep lib fs rootPath o1 of
        (Some err, o2) \<Rightarrow> (Some err, o2)
      | (None, o2) \<Rightarrow>
     (case rootFilesStep fs rootPath o2 of
        (Some err, o3) \<Rightarrow> (Some err, o3)
      | (None, o3) \<Rightarrow>
     (case versionLoop lib fs rootPath versionCandidates
             (o3\<lparr>SourceFiles := SourceFiles o3 @ [''go.mod'', ''go.sum'']\<rparr>) of
        (Some err, o4) \<Rightarrow> (Some err, o4)
      | (None, o4) \<Rightarrow> commandsStep lib fs rootPath o4))))"

text \<open>
  \<open>DetectGolang(rootPath, options)\<close> returns \<open>(bool, error)\<close> and fills the descriptor
  it was given a pointer to; the model returns the pair and the descriptor.
  \<open>gomod.Close()\<close> is deferred and its error dropped; it changes nothing here.
\<close>

definition DetectGolang ::
  "Lib \<Rightarrow> FS \<Rightarrow> string \<Rightarrow> 'a Options_scheme \<Rightarrow>
   (bool \<times> error option) \<times> 'a Options_scheme"
where
  "DetectGolang lib fs rootPath options =
     (case Open fs (filepath_Join lib rootPath ''go.mod'') of
        Inl err \<Rightarrow>
          if IsNotExist err then ((False, None), options) else ((False, Some err), options)
      | Inr gomod \<Rightarrow>
          (case ReadAll fs gomod of
             Inl err \<Rightarrow> ((True, Some err), options)
           | Inr contents \<Rightarrow>
               (case detectBody lib fs rootPath contents options of
                  (err, options') \<Rightarrow> ((True, err), options'))))"

subsection \<open>What the loops collect\<close>

text \<open>
  Closed forms used to state what detection appends. They are not part of the code;
  the lemmas of the next section prove that the code computes them.
  \<^item> \<open>existing\<close>: the names of a list whose directory exists under the root;
  \<^item> \<open>goFileNames\<close>: the names of the plain \<open>.go\<close> files of a listing;
  \<^item> \<open>goDir\<close>: the test the fallback applies to an entry of the root listing;
  \<^item> \<open>isOK\<close>: a call returned no error;
  \<^item> \<open>versionPick\<close>: the version package after the loop over the candidates;
  \<^item> \<open>fallbackDirs\<close>, \<open>detectedDirs\<close>, \<open>rootGoFiles\<close>, \<open>commandNames\<close>: what a run
    that meets no error appends to the directories, the root files and the commands;
  \<^item> \<open>fallbackOK\<close>, \<open>bodyOK\<close>: no call of the fallback scan, and of the run after the
    manifest was read, returns an error;
  \<^item> \<open>detected\<close>: the descriptor such a run returns.
\<close>

definition existing :: "FS \<Rightarrow> string \<Rightarrow> string list \<Rightarrow> string list" where
  "existing fs r ds = filter (\<lambda>d. directoryExists fs r d = Inr True) ds"

definition goFileNames :: "FileInfo list \<Rightarrow> string list" where
  "goFileNames contents =
     map Name (filter (\<lambda>item. \<not> IsDir item \<and> HasSuffix (Name item) ''.go'') contents)"

definition goDir :: "Lib \<Rightarrow> FS \<Rightarrow> string \<Rightarrow> FileInfo \<Rightarrow> bool" where
  "goDir lib fs r item =
     (IsDir item \<and> hasGoFiles fs (filepath_Join lib r (Name item)) = Inr True)"

definition isOK :: "'e + 'a \<Rightarrow> bool" where
  "isOK x = (case x of Inl _ \<Rightarrow> False | Inr _ \<Rightarrow> True)"

definition versionPick :: "Lib \<Rightarrow> FS \<Rightarrow> string \<Rightarrow> string list \<Rightarrow> string \<Rightarrow> string \<Rightarrow> string" where
  "versionPick lib fs r cs canonical old =
     (if existing fs r cs = [] then old else path_Join lib canonical (last (existing fs r cs)))"

definition fallbackDirs :: "Lib \<Rightarrow> FS \<Rightarrow> string \<Rightarrow> string list" where
  "fallbackDirs lib fs r =
     (case ReadDir fs r of
        Inl _ \<Rightarrow> []
      | Inr topLevel \<Rightarrow> map Name (filter (goDir lib fs r) topLevel))"

definition detectedDirs :: "Lib \<Rightarrow> FS \<Rightarrow> string \<Rightarrow> string list \<Rightarrow> string list" where
  "detectedDirs lib fs r old =
     (if old @ existing fs r srcDirs = [] then fallbackDirs lib fs r else existing fs r srcDirs)"

definition rootGoFiles :: "FS \<Rightarrow> string \<Rightarrow> string list" where
  "rootGoFiles fs r = (case ReadDir fs r of Inl _ \<Rightarrow> [] | Inr contents \<Rightarrow> goFileNames contents)"

definition commandNames :: "Lib \<Rightarrow> FS \<Rightarrow> string \<Rightarrow> string list" where
  "commandNames lib fs r =
     (if directoryExists fs r ''cmd'' = Inr True
      then (case ReadDir fs (filepath_Join lib r ''cmd'') of
              Inl _ \<Rightarrow> []
            | Inr dirs \<Rightarrow> map Name (filter IsDir dirs))
      else [])"

definition fallbackOK :: "Lib \<Rightarrow> FS \<Rightarrow> string \<Rightarrow> bool" where
  "fallbackOK lib fs r =
     (case ReadDir fs r of
        Inl _ \<Rightarrow> False
      | Inr topLevel \<Rightarrow>
          \<forall>item\<in>set topLevel. IsDir item \<longrightarrow> isOK (hasGoFiles fs (filepath_Join lib r (Name item))))"

definition bodyOK :: "Lib \<Rightarrow> FS \<Rightarrow> string \<Rightarrow> string list \<Rightarrow> bool" where
  "bodyOK lib fs r old =
     ((\<forall>d\<in>set srcDirs. isOK (directoryExists fs r d)) \<and>
      (old @ existing fs r srcDirs = [] \<longrightarrow> fallbackOK lib fs r) \<and>
      isOK (ReadDir fs r) \<and>
      (\<forall>c\<in>set versionCandidates. isOK (directoryExists fs r c)) \<and>
      (directoryExists fs r ''cmd'' = Inr True \<longrightarrow> isOK (ReadDir fs (filepath_Join lib r ''cmd''))))"

definition detected ::
  "Lib \<Rightarrow> FS \<Rightarrow> string \<Rightarrow> string \<Rightarrow> 'a Options_scheme \<Rightarrow> 'a Options_scheme" where
  "detected lib fs r contents opts =
     opts\<lparr>CanonicalPath := ModulePath lib contents,
          Directories := Directories opts @ detectedDirs lib fs r (GoDirectories opts),
          GoDirectories := GoDirectories opts @ detectedDirs lib fs r (GoDirectories opts),
          SourceFiles := SourceFiles opts @ rootGoFiles fs r @ [''go.mod'', ''go.sum''],
          GoSourceFiles := GoSourceFiles opts @ rootGoFiles fs r,
          VersionPackage := versionPick lib fs r versionCandidates (ModulePath lib contents)
                              (VersionPackage opts),
          Commands := Commands opts @ commandNames lib fs r\<rparr>"

section \<open>The pipeline graph of a Go project (BuildGolang)\<close>

subsection \<open>Nodes\<close>

text \<open>
  Modelled from the spec: the type \<open>dag.Node\<close>, its method \<open>AddInput\<close>, the node
  factories (\<open>golang.NewToolchain\<close>, \<open>golang.NewGolangciLint\<close>, \<open>golang.NewGofumpt\<close>,
  \<open>common.NewLint\<close>, \<open>golang.NewUnitTests\<close>, \<open>service.NewCodeCov\<close>,
  \<open>golang.NewBuild\<close>, \<open>common.NewImage\<close>, \<open>common.NewFHS\<close>, \<open>common.NewCACerts\<close>)
  and the adapter \<open>wrap.Drone\<close> are defined in other packages. The spec gives a node
  an opaque identity, unique per constructed node, and an ordered sequence of inputs,
  references to other nodes that are neither owned nor copied.

  Nodes therefore live in a store and are referred to by address: the store is the list
  of all nodes constructed so far, and the address of a node is its position in it, so
  a new node never has the address of an older one. A factory appends a node of its
  kind with no inputs and returns the address. \<open>AddInput\<close> appends references to the
  inputs of the node it is called on. \<open>wrap.Drone(n)\<close> constructs an adapter node
  that refers to the node \<open>n\<close> it gives a view of. The code calls \<open>AddInput\<close> and
  sets \<open>InputPath\<close> only on a node it has just constructed; on an address that is not
  in the store, which no Go pointer corresponds to, both leave the store as it is.
  The factories take the descriptor and keep a pointer to it; the nodes of the model do
  not record it. The kind \<open>Upstream\<close> stands for the nodes of other builders.
\<close>

datatype Kind =
    Toolchain | GolangciLint | Gofumpt | Lint | UnitTests | CodeCov
  | Build string string | Image string | FHS | CACerts | DroneWrapper nat
  | Upstream string

record Node =
  kind :: Kind
  Inputs :: "nat list"
  InputPath :: string

type_synonym Store = "Node list"

definition newNode :: "Kind \<Rightarrow> Store \<Rightarrow> nat \<times> Store" where
  "newNode k s = (length s, s @ [\<lparr>kind = k, Inputs = [], InputPath = []\<rparr>])"

definition AddInput :: "nat \<Rightarrow> nat list \<Rightarrow> Store \<Rightarrow> Store" where
  "AddInput n ins s =
     (if n < length s then s[n := (s ! n)\<lparr>Inputs := Inputs (s ! n) @ ins\<rparr>] else s)"

definition SetInputPath :: "nat \<Rightarrow> string \<Rightarrow> Store \<Rightarrow> Store" where
  "SetInputPath n p s = (if n < length s then s[n := (s ! n)\<lparr>InputPath := p\<rparr>] else s)"

definition NewToolchain :: "'a Options_scheme \<Rightarrow> Store \<Rightarrow> nat \<times> Store" where
  "NewToolchain meta = newNode Toolchain"

definition NewGolangciLint :: "'a Options_scheme \<Rightarrow> Store \<Rightarrow> nat \<times> Store" where
  "NewGolangciLint meta = newNode GolangciLint"

definition NewGofumpt :: "'a Options_scheme \<Rightarrow> Store \<Rightarrow> nat \<times> Store" where
  "NewGofumpt meta = newNode Gofumpt"

definition NewLint :: "'a Options_scheme \<Rightarrow> Store \<Rightarrow> nat \<times> Store" where
  "NewLint meta = newNode Lint"

definition NewUnitTests :: "'a Options_scheme \<Rightarrow> Store \<Rightarrow> nat \<times> Store" where
  "NewUnitTests meta = newNode UnitTests"

definition NewCodeCov :: "'a Options_scheme \<Rightarrow> Store \<Rightarrow> nat \<times> Store" where
  "NewCodeCov meta = newNode CodeCov"

definition NewBuild :: "'a Options_scheme \<Rightarrow> string \<Rightarrow> string \<Rightarrow> Store \<Rightarrow> nat \<times> Store" where
  "NewBuild meta cmd p = newNode (Build cmd p)"

definition NewImage :: "'a Options_scheme \<Rightarrow> string \<Rightarrow> Store \<Rightarrow> nat \<times> Store" where
  "NewImage meta cmd = newNode (Image cmd)"

definition NewFHS :: "'a Options_scheme \<Rightarrow> Store \<Rightarrow> nat \<times> Store" where
  "NewFHS meta = newNode FHS"

definition NewCACerts :: "'a Options_scheme \<Rightarrow> Store \<Rightarrow> nat \<times> Store" where
  "NewCACerts meta = newNode CACerts"

definition Drone :: "nat \<Rightarrow> Store \<Rightarrow> nat \<times> Store" where
  "Drone n s = (length s, s @ [\<lparr>kind = DroneWrapper n, Inputs = [n], InputPath = []\<rparr>])"

subsection \<open>BuildGolang\<close>

text \<open>
  Lines 169-177, the loop over \<open>meta.Commands\<close>. The arguments of
  \<open>image.AddInput(...)\<close> are evaluated from left to right, so the nodes of one
  command are constructed in the order build, image, FHS, CA certificates, adapter.
\<close>

fun processCommands ::
  "Lib \<Rightarrow> 'a Options_scheme \<Rightarrow> nat \<Rightarrow> nat \<Rightarrow> nat \<Rightarrow> string list \<Rightarrow> nat list \<Rightarrow> Store \<Rightarrow>
   nat list \<times> Store"
where
  "processCommands lib meta toolchain lint unitTests [] outputs s = (outputs, s)"
| "processCommands lib meta toolchain lint unitTests (cmd # cmds) outputs s =
     (let (build, s) = NewBuild meta cmd (filepath_Join lib ''cmd'' cmd) s;
          s = AddInput build [toolchain] s;
          (image, s) = NewImage meta cmd s;
          (fhs, s) = NewFHS meta s;
          (cacerts, s) = NewCACerts meta s;
          (drone, s) = Drone unitTests s;
          s = AddInput image [build, fhs, cacerts, lint, drone] s
      in processCommands lib meta toolchain lint unitTests cmds (outputs @ [build, image]) s)"

text \<open>
  \<open>BuildGolang(meta, inputs)\<close> returns \<open>([]dag.Node, error)\<close>; the model also takes
  the store holding the upstream nodes and returns the store after the build.
\<close>

definition BuildGolang ::
  "Lib \<Rightarrow> 'a Options_scheme \<Rightarrow> nat list \<Rightarrow> Store \<Rightarrow> (nat list \<times> error option) \<times> Store"
where
  "BuildGolang lib meta inputs s =
     (let (toolchain, s) = NewToolchain meta s;
          s = AddInput toolchain inputs s;
          (golangciLint, s) = NewGolangciLint meta s;
          (gofumpt, s) = NewGofumpt meta s;
          s = AddInput toolchain [golangciLint, gofumpt] s;
          (lint, s) = NewLint meta s;
          s = AddInput lint [toolchain, golangciLint, gofumpt] s;
          (unitTests, s) = NewUnitTests meta s;
          s = AddInput unitTests [toolchain] s;
          (coverage, s) = NewCodeCov meta s;
          s = SetInputPath coverage ''coverage.txt'' s;
          s = AddInput coverage [unitTests] s;
          outputs = [lint, unitTests, coverage];
          (outputs, s) = processCommands lib meta toolchain lint unitTests (Commands meta) outputs s
      in ((outputs, None), s))"



subsection \<open>The graph a build adds, in closed form\<close>

text \<open>
  Used to state and prove the claims: the six nodes every build constructs, the five
  nodes it constructs for one command, the addresses it returns for the commands, and
  the stage of a node, a number that every edge of the new graph decreases.
\<close>

definition mkNode :: "Kind \<Rightarrow> nat list \<Rightarrow> Node" where
  "mkNode k ins = \<lparr>kind = k, Inputs = ins, InputPath = []\<rparr>"

definition commandNodes :: "Lib \<Rightarrow> nat \<Rightarrow> nat \<Rightarrow> nat \<Rightarrow> nat \<Rightarrow> string \<Rightarrow> Node list" where
  "commandNodes lib toolchain lint unitTests b cmd =
     [mkNode (Build cmd (filepath_Join lib ''cmd'' cmd)) [toolchain],
      mkNode (Image cmd) [b, b + 2, b + 3, lint, b + 4],
      mkNode FHS [],
      mkNode CACerts [],
      mkNode (DroneWrapper unitTests) [unitTests]]"

fun allCommandNodes :: "Lib \<Rightarrow> nat \<Rightarrow> nat \<Rightarrow> nat \<Rightarrow> nat \<Rightarrow> string list \<Rightarrow> Node list" where
  "allCommandNodes lib toolchain lint unitTests b [] = []"
| "allCommandNodes lib toolchain lint unitTests b (cmd # cmds) =
     commandNodes lib toolchain lint unitTests b cmd @
     allCommandNodes lib toolchain lint unitTests (b + 5) cmds"

fun commandOutputs :: "nat \<Rightarrow> string list \<Rightarrow> nat list" where
  "commandOutputs b [] = []"
| "commandOutputs b (cmd # cmds) = b # (b + 1) # commandOutputs (b + 5) cmds"

definition fixedNodes :: "nat \<Rightarrow> nat list \<Rightarrow> Node list" where
  "fixedNodes n inputs =
     [mkNode Toolchain (inputs @ [n + 1, n + 2]),
      mkNode GolangciLint [],
      mkNode Gofumpt [],
      mkNode Lint [n, n + 1, n + 2],
      mkNode UnitTests [n],
      \<lparr>kind = CodeCov, Inputs = [n + 4], InputPath = ''coverage.txt''\<rparr>]"






section \<open>Concrete projects\<close>

text \<open>Library functions for the examples: joining with a slash, and a manifest that
  holds the line \<open>module <path>\<close>.\<close>

definition lib0 :: Lib where
  "lib0 = \<lparr>filepath_Join = (\<lambda>a b. a @ ''/'' @ b),
           path_Join = (\<lambda>a b. a @ ''/'' @ b),
           ModulePath = drop 7\<rparr>"

definition emptyOptions :: Options where
  "emptyOptions = \<lparr>CanonicalPath = [], Directories = [], GoDirectories = [],
     SourceFiles = [], GoSourceFiles = [], VersionPackage = [], Commands = []\<rparr>"

text \<open>A root without \<open>go.mod\<close>.\<close>

definition fsNoManifest :: FS where
  "fsNoManifest = \<lparr>Open = (\<lambda>p. Inl ErrNotExist), ReadAll = (\<lambda>f. Inl (ErrOther ''bad descriptor'')),
     ReadDir = (\<lambda>p. if p = ''/r'' then Inr [\<lparr>Name = ''README.md'', IsDir = False\<rparr>]
                     else Inl ErrNotExist),
     directoryExists = (\<lambda>r n. Inr False)\<rparr>"

text \<open>A root whose \<open>go.mod\<close> cannot be opened.\<close>

definition fsDenied :: FS where
  "fsDenied = \<lparr>Open = (\<lambda>p. Inl ErrPermission), ReadAll = (\<lambda>f. Inl (ErrOther ''bad descriptor'')),
     ReadDir = (\<lambda>p. Inl ErrPermission),
     directoryExists = (\<lambda>r n. Inr False)\<rparr>"

text \<open>
  The project \<open>/r\<close>: \<open>go.mod\<close> declaring \<open>example.org/app\<close>, \<open>go.sum\<close>, \<open>main.go\<close>, the
  directories \<open>cmd\<close> (with the command \<open>server\<close> and a file), \<open>internal\<close> and \<open>pkg\<close>
  (each with a \<open>version\<close> package) and \<open>tools\<close>, which holds \<open>gen.go\<close>.
\<close>

definition fsApp :: FS where
  "fsApp = \<lparr>
     Open = (\<lambda>p. if p = ''/r/go.mod'' then Inr 3 else Inl ErrNotExist),
     ReadAll = (\<lambda>f. if f = 3 then Inr ''module example.org/app'' else Inl (ErrOther ''bad descriptor'')),
     ReadDir = (\<lambda>p.
       if p = ''/r'' then Inr [\<lparr>Name = ''cmd'', IsDir = True\<rparr>, \<lparr>Name = ''go.mod'', IsDir = False\<rparr>,
                              \<lparr>Name = ''go.sum'', IsDir = False\<rparr>, \<lparr>Name = ''internal'', IsDir = True\<rparr>,
                              \<lparr>Name = ''main.go'', IsDir = False\<rparr>, \<lparr>Name = ''pkg'', IsDir = True\<rparr>,
                              \<lparr>Name = ''tools'', IsDir = True\<rparr>]
       else if p = ''/r/cmd'' then Inr [\<lparr>Name = ''README.md'', IsDir = False\<rparr>,
                                        \<lparr>Name = ''server'', IsDir = True\<rparr>]
       else if p = ''/r/tools'' then Inr [\<lparr>Name = ''gen.go'', IsDir = False\<rparr>]
       else if p = ''/r/pkg'' \<or> p = ''/r/internal'' then Inr [\<lparr>Name = ''version'', IsDir = True\<rparr>]
       else Inl ErrNotExist),
     directoryExists = (\<lambda>r n. Inr (r = ''/r'' \<and> n \<in> set [''cmd'', ''internal'', ''pkg'',
                                                           ''pkg/version'', ''internal/version'']))\<rparr>"

text \<open>
  The project \<open>/flat\<close>: \<open>go.mod\<close>, no conventional directory, the directory \<open>tools\<close>
  holding \<open>gen.go\<close> and the directory \<open>docs\<close> holding no Go file.
\<close>

definition fsFlat :: FS where
  "fsFlat = \<lparr>
     Open = (\<lambda>p. if p = ''/flat/go.mod'' then Inr 3 else Inl ErrNotExist),
     ReadAll = (\<lambda>f. if f = 3 then Inr ''module example.org/flat'' else Inl (ErrOther ''bad descriptor'')),
     ReadDir = (\<lambda>p.
       if p = ''/flat'' then Inr [\<lparr>Name = ''docs'', IsDir = True\<rparr>, \<lparr>Name = ''go.mod'', IsDir = False\<rparr>,
                                 \<lparr>Name = ''tools'', IsDir = True\<rparr>]
       else if p = ''/flat/tools'' then Inr [\<lparr>Name = ''gen.go'', IsDir = False\<rparr>]
       else if p = ''/flat/docs'' then Inr [\<lparr>Name = ''index.md'', IsDir = False\<rparr>]
       else Inl ErrNotExist),
     directoryExists = (\<lambda>r n. Inr False)\<rparr>"

text \<open>
  The project \<open>/r\<close> seen through another file system: it gives the same answers at
  \<open>/r\<close> and refuses everything else.
\<close>

definition fsApp' :: FS where
  "fsApp' = fsApp\<lparr>Open := (\<lambda>p. if p = ''/r/go.mod'' then Inr 3 else Inl ErrPermission),
                   directoryExists := (\<lambda>r n. if r = ''/r'' then directoryExists fsApp r n
                                               else Inl ErrPermission)\<rparr>"

text \<open>
  A store with two upstream nodes, the second depending on the first, and a descriptor
  with the commands \<open>a\<close> and \<open>b\<close>.
\<close>

definition store1 :: Store where
  "store1 = [\<lparr>kind = Upstream ''checkout'', Inputs = [], InputPath = []\<rparr>,
             \<lparr>kind = Upstream ''setup'', Inputs = [0], InputPath = []\<rparr>]"

definition metaAB :: Options where
  "metaAB = emptyOptions\<lparr>Commands := [''a'', ''b'']\<rparr>"

section \<open>Properties of detection\<close>

subsection \<open>The effect of each loop\<close>

lemma srcDirLoop_frame:
  "srcDirLoop fs r ds opts = (e, opts') \<Longrightarrow>
     CanonicalPath opts' = CanonicalPath opts \<and> SourceFiles opts' = SourceFiles opts \<and>
     GoSourceFiles opts' = GoSourceFiles opts \<and> VersionPackage opts' = VersionPackage opts \<and>
     Commands opts' = Commands opts \<and> Options.more opts' = Options.more opts"
  by (induction ds arbitrary: opts) (auto split: sum.splits if_splits)

lemma srcDirLoop_ok:
  "\<forall>d\<in>set ds. \<exists>b. directoryExists fs r d = Inr b \<Longrightarrow>
   srcDirLoop fs r ds opts =
     (None, opts\<lparr>Directories := Directories opts @ existing fs r ds,
                 GoDirectories := GoDirectories opts @ existing fs r ds\<rparr>)"
  by (induction ds arbitrary: opts) (auto split: sum.splits simp: existing_def)

lemma srcDirLoop_None:
  "srcDirLoop fs r ds opts = (None, opts') \<Longrightarrow> \<forall>d\<in>set ds. \<exists>b. directoryExists fs r d = Inr b"
  by (induction ds arbitrary: opts) (auto split: sum.splits)

lemma srcDirLoop_appends:
  "srcDirLoop fs r ds opts = (e, opts') \<Longrightarrow>
   \<exists>xs. Directories opts' = Directories opts @ xs \<and> GoDirectories opts' = GoDirectories opts @ xs \<and>
        set xs \<subseteq> set (existing fs r ds)"
proof (induction ds arbitrary: opts)
  case Nil
  then show ?case by simp
next
  case (Cons d ds)
  show ?case
  proof (cases "directoryExists fs r d")
    case (Inl err)
    with Cons.prems show ?thesis by auto
  next
    case (Inr b)
    let ?o = "if b then opts\<lparr>Directories := Directories opts @ [d],
                          GoDirectories := GoDirectories opts @ [d]\<rparr> else opts"
    from Cons.prems Inr have "srcDirLoop fs r ds ?o = (e, opts')" by simp
    from Cons.IH [OF this] obtain xs where
      xs: "Directories opts' = Directories ?o @ xs" "GoDirectories opts' = GoDirectories ?o @ xs"
        "set xs \<subseteq> set (existing fs r ds)"
      by blast
    show ?thesis
    proof (cases b)
      case True
      with xs Inr show ?thesis
        by (intro exI [of _ "d # xs"]) (auto simp: existing_def)
    next
      case False
      with xs Inr show ?thesis
        by (intro exI [of _ xs]) (auto simp: existing_def)
    qed
  qed
qed

lemma topLevelLoop_frame:
  "topLevelLoop lib fs r items opts = (e, opts') \<Longrightarrow>
     CanonicalPath opts' = CanonicalPath opts \<and> SourceFiles opts' = SourceFiles opts \<and>
     GoSourceFiles opts' = GoSourceFiles opts \<and> VersionPackage opts' = VersionPackage opts \<and>
     Commands opts' = Commands opts \<and> Options.more opts' = Options.more opts"
  by (induction items arbitrary: opts) (auto split: sum.splits if_splits)

lemma topLevelLoop_appends:
  "topLevelLoop lib fs r items opts = (e, opts') \<Longrightarrow>
   \<exists>xs. Directories opts' = Directories opts @ xs \<and> GoDirectories opts' = GoDirectories opts @ xs \<and>
        set xs \<subseteq> Name ` {item \<in> set items. goDir lib fs r item} \<and>
        (e = None \<longrightarrow> xs = map Name (filter (goDir lib fs r) items))"
proof (induction items arbitrary: opts)
  case Nil
  then show ?case by simp
next
  case (Cons item items)
  show ?case
  proof (cases "IsDir item")
    case False
    then have g: "\<not> goDir lib fs r item" by (simp add: goDir_def)
    from False Cons.prems have "topLevelLoop lib fs r items opts = (e, opts')" by simp
    from Cons.IH [OF this] g show ?thesis by auto
  next
    case True
    show ?thesis
    proof (cases "hasGoFiles fs (filepath_Join lib r (Name item))")
      case (Inl err)
      with True Cons.prems show ?thesis by auto
    next
      case (Inr b)
      with True have g: "goDir lib fs r item = b" by (simp add: goDir_def)
      let ?o = "if b then opts\<lparr>Directories := Directories opts @ [Name item],
                            GoDirectories := GoDirectories opts @ [Name item]\<rparr> else opts"
      from Cons.prems Inr True have "topLevelLoop lib fs r items ?o = (e, opts')" by simp
      from Cons.IH [OF this] obtain xs where
        xs: "Directories opts' = Directories ?o @ xs" "GoDirectories opts' = GoDirectories ?o @ xs"
          "set xs \<subseteq> Name ` {item \<in> set items. goDir lib fs r item}"
          "e = None \<longrightarrow> xs = map Name (filter (goDir lib fs r) items)"
        by blast
      show ?thesis
      proof (cases b)
        case True
        with xs g show ?thesis
          by (intro exI [of _ "Name item # xs"]) auto
      next
        case False
        with xs g show ?thesis
          by (intro exI [of _ xs]) auto
      qed
    qed
  qed
qed

lemma rootFileLoop_eq:
  "rootFileLoop contents opts =
     opts\<lparr>SourceFiles := SourceFiles opts @ goFileNames contents,
          GoSourceFiles := GoSourceFiles opts @ goFileNames contents\<rparr>"
  by (induction contents arbitrary: opts) (auto simp: goFileNames_def)

lemma commandLoop_eq:
  "commandLoop dirs opts = opts\<lparr>Commands := Commands opts @ map Name (filter IsDir dirs)\<rparr>"
  by (induction dirs arbitrary: opts) auto

lemma versionLoop_frame:
  "versionLoop lib fs r cs opts = (e, opts') \<Longrightarrow>
     CanonicalPath opts' = CanonicalPath opts \<and> Directories opts' = Directories opts \<and>
     GoDirectories opts' = GoDirectories opts \<and> SourceFiles opts' = SourceFiles opts \<and>
     GoSourceFiles opts' = GoSourceFiles opts \<and>
     Commands opts' = Commands opts \<and> Options.more opts' = Options.more opts"
  by (induction cs arbitrary: opts) (auto split: sum.splits if_splits)

lemma fallbackStep_frame:
  "fallbackStep lib fs r opts = (e, opts') \<Longrightarrow>
     CanonicalPath opts' = CanonicalPath opts \<and> SourceFiles opts' = SourceFiles opts \<and>
     GoSourceFiles opts' = GoSourceFiles opts \<and> VersionPackage opts' = VersionPackage opts \<and>
     Commands opts' = Commands opts \<and> Options.more opts' = Options.more opts"
  by (auto simp: fallbackStep_def fallbackScan_def split: if_splits sum.splits
      dest: topLevelLoop_frame)

lemma rootFilesStep_frame:
  "rootFilesStep fs r opts = (e, opts') \<Longrightarrow>
     CanonicalPath opts' = CanonicalPath opts \<and> Directories opts' = Directories opts \<and>
     GoDirectories opts' = GoDirectories opts \<and> VersionPackage opts' = VersionPackage opts \<and>
     Commands opts' = Commands opts \<and> Options.more opts' = Options.more opts"
  by (auto simp: rootFilesStep_def rootFileLoop_eq split: if_splits sum.splits)

lemma commandsStep_frame:
  "commandsStep lib fs r opts = (e, opts') \<Longrightarrow>
     CanonicalPath opts' = CanonicalPath opts \<and> Directories opts' = Directories opts \<and>
     GoDirectories opts' = GoDirectories opts \<and> SourceFiles opts' = SourceFiles opts \<and>
     GoSourceFiles opts' = GoSourceFiles opts \<and> VersionPackage opts' = VersionPackage opts \<and>
     Options.more opts' = Options.more opts"
  by (auto simp: commandsStep_def commandLoop_eq split: if_splits sum.splits)

lemma isOK_simps [simp]: "isOK (Inl e) = False" "isOK (Inr v) = True"
  by (simp_all add: isOK_def)

lemma isOK_iff: "isOK x \<longleftrightarrow> (\<exists>v. x = Inr v)"
  by (cases x) auto

lemma srcDirLoop_ok':
  "\<forall>d\<in>set ds. isOK (directoryExists fs r d) \<Longrightarrow>
   srcDirLoop fs r ds opts =
     (None, opts\<lparr>Directories := Directories opts @ existing fs r ds,
                 GoDirectories := GoDirectories opts @ existing fs r ds\<rparr>)"
  by (rule srcDirLoop_ok) (simp add: isOK_iff)

lemma srcDirLoop_None':
  "srcDirLoop fs r ds opts = (None, opts') \<Longrightarrow> \<forall>d\<in>set ds. isOK (directoryExists fs r d)"
  using srcDirLoop_None [of fs r ds opts opts'] by (simp add: isOK_iff)

lemma topLevelLoop_ok:
  "\<forall>item\<in>set items. IsDir item \<longrightarrow> isOK (hasGoFiles fs (filepath_Join lib r (Name item))) \<Longrightarrow>
   topLevelLoop lib fs r items opts =
     (None, opts\<lparr>Directories := Directories opts @ map Name (filter (goDir lib fs r) items),
                 GoDirectories := GoDirectories opts @ map Name (filter (goDir lib fs r) items)\<rparr>)"
proof (induction items arbitrary: opts)
  case Nil
  then show ?case by simp
next
  case (Cons item items)
  from Cons.prems
  have "\<forall>item\<in>set items. IsDir item \<longrightarrow> isOK (hasGoFiles fs (filepath_Join lib r (Name item)))"
    by simp
  note IH = Cons.IH [OF this]
  show ?case
  proof (cases "IsDir item")
    case False
    then have "\<not> goDir lib fs r item" by (simp add: goDir_def)
    with False show ?thesis by (simp add: IH)
  next
    case True
    with Cons.prems obtain b where b: "hasGoFiles fs (filepath_Join lib r (Name item)) = Inr b"
      by (auto simp: isOK_iff)
    with True have "goDir lib fs r item = b" by (simp add: goDir_def)
    with True b show ?thesis by (simp add: IH)
  qed
qed

lemma topLevelLoop_None:
  "topLevelLoop lib fs r items opts = (None, opts') \<Longrightarrow>
   \<forall>item\<in>set items. IsDir item \<longrightarrow> isOK (hasGoFiles fs (filepath_Join lib r (Name item)))"
  by (induction items arbitrary: opts) (auto split: sum.splits if_splits)

lemma versionLoop_ok:
  "\<forall>c\<in>set cs. isOK (directoryExists fs r c) \<Longrightarrow>
   versionLoop lib fs r cs opts =
     (None, opts\<lparr>VersionPackage :=
        versionPick lib fs r cs (CanonicalPath opts) (VersionPackage opts)\<rparr>)"
proof (induction cs arbitrary: opts)
  case Nil
  then show ?case by (simp add: versionPick_def existing_def)
next
  case (Cons c cs)
  from Cons.prems obtain b where b: "directoryExists fs r c = Inr b" by (auto simp: isOK_iff)
  from Cons.prems have "\<forall>c\<in>set cs. isOK (directoryExists fs r c)" by simp
  note IH = Cons.IH [OF this]
  show ?case using b by (simp add: IH versionPick_def existing_def)
qed

lemma versionLoop_None:
  "versionLoop lib fs r cs opts = (None, opts') \<Longrightarrow> \<forall>c\<in>set cs. isOK (directoryExists fs r c)"
  by (induction cs arbitrary: opts) (auto split: sum.splits)

lemma anyGoFile_iff: "anyGoFile contents \<longleftrightarrow> goFileNames contents \<noteq> []"
  by (induction contents) (auto simp: goFileNames_def)

lemma fallbackStep_ok:
  "(GoDirectories opts = [] \<longrightarrow> fallbackOK lib fs r) \<Longrightarrow>
   fallbackStep lib fs r opts =
     (None, if GoDirectories opts = []
            then opts\<lparr>Directories := Directories opts @ fallbackDirs lib fs r,
                      GoDirectories := GoDirectories opts @ fallbackDirs lib fs r\<rparr>
            else opts)"
  by (auto simp: fallbackStep_def fallbackScan_def fallbackOK_def fallbackDirs_def topLevelLoop_ok
      split: sum.splits)

lemma fallbackStep_None:
  "fallbackStep lib fs r opts = (None, opts') \<Longrightarrow> GoDirectories opts = [] \<longrightarrow> fallbackOK lib fs r"
  using topLevelLoop_None [of lib fs r _ opts opts']
  by (auto simp: fallbackStep_def fallbackScan_def fallbackOK_def split: sum.splits)

lemma rootFilesStep_ok:
  "isOK (ReadDir fs r) \<Longrightarrow>
   rootFilesStep fs r opts =
     (None, opts\<lparr>SourceFiles := SourceFiles opts @ rootGoFiles fs r,
                 GoSourceFiles := GoSourceFiles opts @ rootGoFiles fs r\<rparr>)"
  by (auto simp: rootFilesStep_def hasGoFiles_def rootGoFiles_def rootFileLoop_eq anyGoFile_iff
      split: sum.splits)

lemma rootFilesStep_None:
  "rootFilesStep fs r opts = (None, opts') \<Longrightarrow> isOK (ReadDir fs r)"
  by (auto simp: rootFilesStep_def hasGoFiles_def split: sum.splits if_splits)

lemma commandsStep_ok:
  "isOK (directoryExists fs r ''cmd'') \<Longrightarrow>
   directoryExists fs r ''cmd'' = Inr True \<longrightarrow> isOK (ReadDir fs (filepath_Join lib r ''cmd'')) \<Longrightarrow>
   commandsStep lib fs r opts = (None, opts\<lparr>Commands := Commands opts @ commandNames lib fs r\<rparr>)"
  by (auto simp: commandsStep_def commandNames_def commandLoop_eq split: sum.splits)

lemma commandsStep_None:
  "commandsStep lib fs r opts = (None, opts') \<Longrightarrow>
   isOK (directoryExists fs r ''cmd'') \<and>
   (directoryExists fs r ''cmd'' = Inr True \<longrightarrow> isOK (ReadDir fs (filepath_Join lib r ''cmd'')))"
  by (auto simp: commandsStep_def split: sum.splits if_splits)

lemma detectBody_ok:
  assumes "bodyOK lib fs r (GoDirectories opts)"
  shows "detectBody lib fs r contents opts = (None, detected lib fs r contents opts)"
proof -
  from assms have 1: "\<forall>d\<in>set srcDirs. isOK (directoryExists fs r d)"
    and 2: "GoDirectories opts @ existing fs r srcDirs = [] \<longrightarrow> fallbackOK lib fs r"
    and 3: "isOK (ReadDir fs r)"
    and 4: "\<forall>c\<in>set versionCandidates. isOK (directoryExists fs r c)"
    and 5: "directoryExists fs r ''cmd'' = Inr True \<longrightarrow> isOK (ReadDir fs (filepath_Join lib r ''cmd''))"
    by (simp_all add: bodyOK_def)
  from 1 have 6: "isOK (directoryExists fs r ''cmd'')" by (simp add: srcDirs_def)
  show ?thesis
    using 2
    by (simp add: detectBody_def srcDirLoop_ok' [OF 1] fallbackStep_ok rootFilesStep_ok [OF 3]
        versionLoop_ok [OF 4] commandsStep_ok [OF 6 5] detected_def detectedDirs_def)
qed

lemma detectBody_None:
  assumes "detectBody lib fs r contents opts = (None, opts')"
  shows "bodyOK lib fs r (GoDirectories opts)"
proof -
  from assms obtain o1 o2 o3 o4 where
    s1: "srcDirLoop fs r srcDirs (opts\<lparr>CanonicalPath := ModulePath lib contents\<rparr>) = (None, o1)"
    and s2: "fallbackStep lib fs r o1 = (None, o2)"
    and s3: "rootFilesStep fs r o2 = (None, o3)"
    and s4: "versionLoop lib fs r versionCandidates
               (o3\<lparr>SourceFiles := SourceFiles o3 @ [''go.mod'', ''go.sum'']\<rparr>) = (None, o4)"
    and s5: "commandsStep lib fs r o4 = (None, opts')"
    by (auto simp: detectBody_def split: prod.splits option.splits)
  note 1 = srcDirLoop_None' [OF s1]
  from srcDirLoop_ok' [OF 1, of "opts\<lparr>CanonicalPath := ModulePath lib contents\<rparr>"] s1
  have "GoDirectories o1 = GoDirectories opts @ existing fs r srcDirs" by auto
  with fallbackStep_None [OF s2]
  have 2: "GoDirectories opts @ existing fs r srcDirs = [] \<longrightarrow> fallbackOK lib fs r" by simp
  show ?thesis
    using 1 2 rootFilesStep_None [OF s3] versionLoop_None [OF s4] commandsStep_None [OF s5]
    by (simp add: bodyOK_def)
qed

lemma detectBody_success:
  "detectBody lib fs r contents opts = (None, opts') \<longleftrightarrow>
   bodyOK lib fs r (GoDirectories opts) \<and> opts' = detected lib fs r contents opts"
  using detectBody_ok [of lib fs r opts contents] detectBody_None [of lib fs r contents opts opts']
  by auto

lemma DetectGolang_success:
  "DetectGolang lib fs r opts = ((True, None), opts') \<longleftrightarrow>
   (\<exists>gomod contents. Open fs (filepath_Join lib r ''go.mod'') = Inr gomod \<and>
      ReadAll fs gomod = Inr contents \<and> bodyOK lib fs r (GoDirectories opts) \<and>
      opts' = detected lib fs r contents opts)"
proof
  assume "DetectGolang lib fs r opts = ((True, None), opts')"
  then show "\<exists>gomod contents. Open fs (filepath_Join lib r ''go.mod'') = Inr gomod \<and>
      ReadAll fs gomod = Inr contents \<and> bodyOK lib fs r (GoDirectories opts) \<and>
      opts' = detected lib fs r contents opts"
    by (auto simp: DetectGolang_def detectBody_success split: sum.splits prod.splits if_splits)
next
  assume "\<exists>gomod contents. Open fs (filepath_Join lib r ''go.mod'') = Inr gomod \<and>
      ReadAll fs gomod = Inr contents \<and> bodyOK lib fs r (GoDirectories opts) \<and>
      opts' = detected lib fs r contents opts"
  then show "DetectGolang lib fs r opts = ((True, None), opts')"
    by (auto simp: DetectGolang_def detectBody_ok)
qed

lemma detectBody_dirs:
  assumes "srcDirLoop fs r srcDirs (opts\<lparr>CanonicalPath := ModulePath lib contents\<rparr>) = (e1, o1)"
    and "fallbackStep lib fs r o1 = (e2, o2)"
    and "detectBody lib fs r contents opts = (e, opts')"
  shows "Directories opts' = Directories (if e1 = None then o2 else o1) \<and>
         GoDirectories opts' = GoDirectories (if e1 = None then o2 else o1)"
  using assms
  by (auto simp: detectBody_def split: prod.splits option.splits
      dest!: rootFilesStep_frame versionLoop_frame commandsStep_frame)

lemma existing_nonempty_iff:
  "existing fs r ds \<noteq> [] \<longleftrightarrow> (\<exists>d\<in>set ds. directoryExists fs r d = Inr True)"
  by (auto simp: existing_def filter_empty_conv)

lemma conventional_found:
  assumes op: "Open fs (filepath_Join lib r ''go.mod'') = Inr gomod"
    and rd: "ReadAll fs gomod = Inr contents"
    and ok: "\<forall>d\<in>set srcDirs. isOK (directoryExists fs r d)"
    and ex: "\<exists>d\<in>set srcDirs. directoryExists fs r d = Inr True"
  shows "Directories (snd (DetectGolang lib fs r opts)) = Directories opts @ existing fs r srcDirs"
    and "GoDirectories (snd (DetectGolang lib fs r opts)) = GoDirectories opts @ existing fs r srcDirs"
    and "length (GoDirectories (snd (srcDirLoop fs r srcDirs
            (opts\<lparr>CanonicalPath := ModulePath lib contents\<rparr>)))) \<noteq> 0"
    and "fallbackStep lib fs r (snd (srcDirLoop fs r srcDirs
            (opts\<lparr>CanonicalPath := ModulePath lib contents\<rparr>))) =
         (None, snd (srcDirLoop fs r srcDirs (opts\<lparr>CanonicalPath := ModulePath lib contents\<rparr>)))"
proof -
  let ?o0 = "opts\<lparr>CanonicalPath := ModulePath lib contents\<rparr>"
  let ?o1 = "?o0\<lparr>Directories := Directories ?o0 @ existing fs r srcDirs,
                   GoDirectories := GoDirectories ?o0 @ existing fs r srcDirs\<rparr>"
  have s1: "srcDirLoop fs r srcDirs ?o0 = (None, ?o1)"
    by (rule srcDirLoop_ok' [OF ok])
  from ex have ne: "existing fs r srcDirs \<noteq> []" by (simp add: existing_nonempty_iff)
  then show g: "length (GoDirectories (snd (srcDirLoop fs r srcDirs ?o0))) \<noteq> 0"
    by (simp add: s1)
  then show s2: "fallbackStep lib fs r (snd (srcDirLoop fs r srcDirs ?o0)) =
         (None, snd (srcDirLoop fs r srcDirs ?o0))"
    by (simp add: fallbackStep_def)
  obtain e o' where b: "detectBody lib fs r contents opts = (e, o')"
    by (cases "detectBody lib fs r contents opts")
  from s2 have s2': "fallbackStep lib fs r ?o1 = (None, ?o1)" by (simp add: s1)
  from detectBody_dirs [OF s1 s2' b]
  have "Directories o' = Directories opts @ existing fs r srcDirs"
    "GoDirectories o' = GoDirectories opts @ existing fs r srcDirs" by simp_all
  moreover have "snd (DetectGolang lib fs r opts) = o'"
    by (simp add: DetectGolang_def op rd b)
  ultimately show
    "Directories (snd (DetectGolang lib fs r opts)) = Directories opts @ existing fs r srcDirs"
    "GoDirectories (snd (DetectGolang lib fs r opts)) = GoDirectories opts @ existing fs r srcDirs"
    by simp_all
qed

lemma fallbackStep_appends:
  assumes "fallbackStep lib fs r opts = (e, opts')"
  shows "\<exists>xs. Directories opts' = Directories opts @ xs \<and>
              GoDirectories opts' = GoDirectories opts @ xs \<and>
              (xs \<noteq> [] \<longrightarrow> GoDirectories opts = [] \<and>
                 (\<exists>topLevel. ReadDir fs r = Inr topLevel \<and>
                    set xs \<subseteq> Name ` {item \<in> set topLevel. goDir lib fs r item}))"
proof (cases "GoDirectories opts = []")
  case False
  with assms show ?thesis by (auto simp: fallbackStep_def)
next
  case True
  show ?thesis
  proof (cases "ReadDir fs r")
    case (Inl err)
    with True assms show ?thesis by (auto simp: fallbackStep_def fallbackScan_def)
  next
    case (Inr topLevel)
    with True assms have "topLevelLoop lib fs r topLevel opts = (e, opts')"
      by (simp add: fallbackStep_def fallbackScan_def)
    from topLevelLoop_appends [OF this] Inr True show ?thesis by auto
  qed
qed

lemma fallback_only:
  assumes d: "d \<in> set (GoDirectories (snd (DetectGolang lib fs r opts)))"
    and new: "d \<notin> set (GoDirectories opts)"
    and nonconv: "d \<notin> set srcDirs"
  shows "(\<forall>c\<in>set srcDirs. directoryExists fs r c \<noteq> Inr True) \<and> GoDirectories opts = [] \<and>
         (\<exists>topLevel item. ReadDir fs r = Inr topLevel \<and> item \<in> set topLevel \<and>
            Name item = d \<and> goDir lib fs r item)"
proof -
  from d new obtain gomod contents where
    op: "Open fs (filepath_Join lib r ''go.mod'') = Inr gomod" and rd: "ReadAll fs gomod = Inr contents"
    by (auto simp: DetectGolang_def split: sum.splits if_splits)
  let ?o0 = "opts\<lparr>CanonicalPath := ModulePath lib contents\<rparr>"
  obtain e1 o1 where s1: "srcDirLoop fs r srcDirs ?o0 = (e1, o1)"
    by (cases "srcDirLoop fs r srcDirs ?o0")
  obtain e2 o2 where s2: "fallbackStep lib fs r o1 = (e2, o2)"
    by (cases "fallbackStep lib fs r o1")
  obtain e o' where b: "detectBody lib fs r contents opts = (e, o')"
    by (cases "detectBody lib fs r contents opts")
  have res: "snd (DetectGolang lib fs r opts) = o'"
    by (simp add: DetectGolang_def op rd b)
  from srcDirLoop_appends [OF s1] obtain xs where
    xs: "GoDirectories o1 = GoDirectories opts @ xs" "set xs \<subseteq> set (existing fs r srcDirs)"
    by auto
  from xs(2) have xs_conv: "set xs \<subseteq> set srcDirs" by (auto simp: existing_def)
  from fallbackStep_appends [OF s2] obtain ys where
    ys: "GoDirectories o2 = GoDirectories o1 @ ys"
      "ys \<noteq> [] \<longrightarrow> GoDirectories o1 = [] \<and>
          (\<exists>topLevel. ReadDir fs r = Inr topLevel \<and>
             set ys \<subseteq> Name ` {item \<in> set topLevel. goDir lib fs r item})"
    by auto
  from detectBody_dirs [OF s1 s2 b]
  have fin: "GoDirectories o' = GoDirectories (if e1 = None then o2 else o1)" by simp
  have e1: "e1 = None"
  proof (rule ccontr)
    assume "e1 \<noteq> None"
    with fin xs(1) have "GoDirectories o' = GoDirectories opts @ xs" by simp
    with d res new nonconv xs_conv show False by auto
  qed
  with fin xs(1) ys(1) have "GoDirectories o' = GoDirectories opts @ xs @ ys" by simp
  with d res new nonconv xs_conv have dy: "d \<in> set ys" by auto
  then have "ys \<noteq> []" by auto
  with ys(2) xs(1) obtain topLevel where
    tl: "GoDirectories opts = []" "xs = []" "ReadDir fs r = Inr topLevel"
      "set ys \<subseteq> Name ` {item \<in> set topLevel. goDir lib fs r item}"
    by auto
  from e1 s1 have "\<forall>d\<in>set srcDirs. isOK (directoryExists fs r d)"
    by (auto dest: srcDirLoop_None')
  from srcDirLoop_ok' [OF this, of ?o0] s1 xs(1) tl(2)
  have "existing fs r srcDirs = []" by auto
  then have "\<forall>c\<in>set srcDirs. directoryExists fs r c \<noteq> Inr True"
    using existing_nonempty_iff [of fs r srcDirs] by blast
  moreover from dy tl(4) obtain item where "item \<in> set topLevel" "Name item = d" "goDir lib fs r item"
    by auto
  ultimately show ?thesis using tl(1,3) by blast
qed

lemma flat_eval:
  "DetectGolang lib0 fsFlat ''/flat'' emptyOptions =
    ((True, None), \<lparr>CanonicalPath = ''example.org/flat'', Directories = [''tools''],
     GoDirectories = [''tools''], SourceFiles = [''go.mod'', ''go.sum''],
     GoSourceFiles = [], VersionPackage = [], Commands = []\<rparr>)"
  by code_simp

lemma app_eval:
  "DetectGolang lib0 fsApp ''/r'' emptyOptions =
    ((True, None), \<lparr>CanonicalPath = ''example.org/app'',
     Directories = [''internal'', ''pkg'', ''cmd''],
     GoDirectories = [''internal'', ''pkg'', ''cmd''],
     SourceFiles = [''main.go'', ''go.mod'', ''go.sum''],
     GoSourceFiles = [''main.go''],
     VersionPackage = ''example.org/app/internal/version'',
     Commands = [''server'']\<rparr>)"
  by code_simp

lemma last_existing_candidates:
  "existing fs r versionCandidates =
     (if directoryExists fs r ''pkg/version'' = Inr True then [''pkg/version''] else []) @
     (if directoryExists fs r ''internal/version'' = Inr True then [''internal/version''] else [])"
  by (simp add: existing_def versionCandidates_def)

lemma goFileNames_suffix: "f \<in> set (goFileNames contents) \<Longrightarrow> HasSuffix f ''.go''"
  by (auto simp: goFileNames_def)

lemma rootGoFiles_suffix: "f \<in> set (rootGoFiles fs r) \<Longrightarrow> HasSuffix f ''.go''"
  by (auto simp: rootGoFiles_def split: sum.splits dest: goFileNames_suffix)

lemma srcDirLoop_cong:
  "directoryExists fs r = directoryExists fs' r \<Longrightarrow>
   srcDirLoop fs r ds opts = srcDirLoop fs' r ds opts"
  by (induction ds arbitrary: opts) (simp_all split: sum.splits)

lemma hasGoFiles_cong: "ReadDir fs = ReadDir fs' \<Longrightarrow> hasGoFiles fs p = hasGoFiles fs' p"
  by (simp add: hasGoFiles_def)

lemma topLevelLoop_cong:
  "ReadDir fs = ReadDir fs' \<Longrightarrow>
   topLevelLoop lib fs r items opts = topLevelLoop lib fs' r items opts"
  by (induction items arbitrary: opts) (simp_all add: hasGoFiles_cong [of fs fs'] split: sum.splits)

lemma versionLoop_cong:
  "directoryExists fs r = directoryExists fs' r \<Longrightarrow>
   versionLoop lib fs r cs opts = versionLoop lib fs' r cs opts"
  by (induction cs arbitrary: opts) (simp_all split: sum.splits)

lemma detectBody_cong:
  assumes d: "directoryExists fs r = directoryExists fs' r" and l: "ReadDir fs = ReadDir fs'"
  shows "detectBody lib fs r contents opts = detectBody lib fs' r contents opts"
proof -
  have h: "hasGoFiles fs = hasGoFiles fs'"
    by (intro ext) (rule hasGoFiles_cong [OF l])
  have t: "topLevelLoop lib fs r = topLevelLoop lib fs' r"
    by (intro ext) (rule topLevelLoop_cong [OF l])
  have 1: "srcDirLoop fs r = srcDirLoop fs' r"
    by (intro ext) (rule srcDirLoop_cong [OF d])
  have 2: "fallbackStep lib fs r = fallbackStep lib fs' r"
    unfolding fallbackStep_def fallbackScan_def l t ..
  have 3: "rootFilesStep fs r = rootFilesStep fs' r"
    unfolding rootFilesStep_def l h ..
  have 4: "versionLoop lib fs r = versionLoop lib fs' r"
    by (intro ext) (rule versionLoop_cong [OF d])
  have 5: "commandsStep lib fs r = commandsStep lib fs' r"
    unfolding commandsStep_def l d ..
  show ?thesis
    unfolding detectBody_def 1 2 3 4 5 ..
qed

lemma DetectGolang_cong:
  assumes o: "Open fs (filepath_Join lib r ''go.mod'') = Open fs' (filepath_Join lib r ''go.mod'')"
    and a: "ReadAll fs = ReadAll fs'"
    and d: "directoryExists fs r = directoryExists fs' r" and l: "ReadDir fs = ReadDir fs'"
  shows "DetectGolang lib fs r opts = DetectGolang lib fs' r opts"
proof -
  have b: "detectBody lib fs r = detectBody lib fs' r"
    by (intro ext) (rule detectBody_cong [OF d l])
  show ?thesis
    unfolding DetectGolang_def o a b ..
qed

lemma bodyOK_rerun:
  assumes "bodyOK lib fs r (GoDirectories opts)"
  shows "bodyOK lib fs r (GoDirectories (detected lib fs r contents opts))"
  using assms by (simp add: bodyOK_def detected_def)

lemma detectedDirs_rerun:
  "set (detectedDirs lib fs r (old @ detectedDirs lib fs r old)) \<subseteq> set (detectedDirs lib fs r old)"
  by (auto simp: detectedDirs_def)

lemma versionPick_rerun:
  "versionPick lib fs r cs c (versionPick lib fs r cs c old) = versionPick lib fs r cs c old"
  by (simp add: versionPick_def)

lemma detect_rerun:
  assumes "DetectGolang lib fs r opts = ((True, None), opts1)"
  shows "\<exists>opts2. DetectGolang lib fs r opts1 = ((True, None), opts2) \<and>
           CanonicalPath opts2 = CanonicalPath opts1 \<and>
           VersionPackage opts2 = VersionPackage opts1 \<and>
           set (Directories opts2) = set (Directories opts1) \<and>
           set (GoDirectories opts2) = set (GoDirectories opts1) \<and>
           set (SourceFiles opts2) = set (SourceFiles opts1) \<and>
           set (GoSourceFiles opts2) = set (GoSourceFiles opts1) \<and>
           set (Commands opts2) = set (Commands opts1) \<and>
           SourceFiles opts2 = SourceFiles opts1 @ rootGoFiles fs r @ [''go.mod'', ''go.sum''] \<and>
           Options.more opts2 = Options.more opts1"
proof -
  from assms obtain gomod contents where
    op: "Open fs (filepath_Join lib r ''go.mod'') = Inr gomod" and rd: "ReadAll fs gomod = Inr contents"
    and ok: "bodyOK lib fs r (GoDirectories opts)"
    and o1: "opts1 = detected lib fs r contents opts"
    by (auto simp: DetectGolang_success)
  let ?o2 = "detected lib fs r contents opts1"
  from bodyOK_rerun [OF ok] o1 have ok1: "bodyOK lib fs r (GoDirectories opts1)" by simp
  with op rd have run2: "DetectGolang lib fs r opts1 = ((True, None), ?o2)"
    by (auto simp: DetectGolang_success)
  have d: "set (detectedDirs lib fs r (GoDirectories opts1)) \<subseteq>
           set (detectedDirs lib fs r (GoDirectories opts))"
    using detectedDirs_rerun [of lib fs r "GoDirectories opts"] by (simp add: o1 detected_def)
  have "CanonicalPath ?o2 = CanonicalPath opts1" "VersionPackage ?o2 = VersionPackage opts1"
    "Options.more ?o2 = Options.more opts1"
    "SourceFiles ?o2 = SourceFiles opts1 @ rootGoFiles fs r @ [''go.mod'', ''go.sum'']"
    by (simp_all add: o1 detected_def versionPick_rerun)
  moreover have "set (Directories ?o2) = set (Directories opts1)"
    "set (GoDirectories ?o2) = set (GoDirectories opts1)"
    using d by (auto simp: o1 detected_def)
  moreover have "set (SourceFiles ?o2) = set (SourceFiles opts1)"
    "set (GoSourceFiles ?o2) = set (GoSourceFiles opts1)"
    "set (Commands ?o2) = set (Commands opts1)"
    by (auto simp: o1 detected_def)
  ultimately show ?thesis using run2 by blast
qed

lemma app_eval2:
  "DetectGolang lib0 fsApp ''/r'' (snd (DetectGolang lib0 fsApp ''/r'' emptyOptions)) =
    ((True, None), \<lparr>CanonicalPath = ''example.org/app'',
     Directories = [''internal'', ''pkg'', ''cmd'', ''internal'', ''pkg'', ''cmd''],
     GoDirectories = [''internal'', ''pkg'', ''cmd'', ''internal'', ''pkg'', ''cmd''],
     SourceFiles = [''main.go'', ''go.mod'', ''go.sum'', ''main.go'', ''go.mod'', ''go.sum''],
     GoSourceFiles = [''main.go'', ''main.go''],
     VersionPackage = ''example.org/app/internal/version'',
     Commands = [''server'', ''server'']\<rparr>)"
  by code_simp

subsection \<open>The claims\<close>

text \<open>
  C4. When the manifest \<open>go.mod\<close> does not exist at the root (opening it fails with a
  not-exist error), detection returns applicable = false and no error, and the
  descriptor it was given comes back equal in every field.
\<close>

theorem detect_no_manifest:
  assumes "Open fs (filepath_Join lib rootPath ''go.mod'') = Inl err"
    and "IsNotExist err"
  shows "DetectGolang lib fs rootPath options = ((False, None), options)"
  using assms by (simp add: DetectGolang_def)

theorem detect_no_manifest_witness:
  "Open fsNoManifest (filepath_Join lib0 ''/r'' ''go.mod'') = Inl ErrNotExist
   \<and> IsNotExist ErrNotExist
   \<and> DetectGolang lib0 fsNoManifest ''/r'' emptyOptions = ((False, None), emptyOptions)"
  using detect_no_manifest [of fsNoManifest lib0 "''/r''" ErrNotExist emptyOptions]
  by (simp add: fsNoManifest_def)

text \<open>
  C9. When opening the manifest fails with an error that is not a not-exist error,
  detection returns applicable = false together with that error and an untouched
  descriptor. Detection reports applicable = true exactly when the manifest was
  opened; so every return after the open, the error returns included, carries
  applicable = true.
\<close>

theorem detect_applicable_after_open:
  "(\<forall>err. Open fs (filepath_Join lib rootPath ''go.mod'') = Inl err \<and> \<not> IsNotExist err \<longrightarrow>
       DetectGolang lib fs rootPath options = ((False, Some err), options)) \<and>
   (fst (fst (DetectGolang lib fs rootPath options)) \<longleftrightarrow>
       (\<exists>gomod. Open fs (filepath_Join lib rootPath ''go.mod'') = Inr gomod))"
  by (auto simp: DetectGolang_def split: sum.splits prod.splits)

theorem detect_applicable_after_open_witness:
  "Open fsDenied (filepath_Join lib0 ''/r'' ''go.mod'') = Inl ErrPermission \<and>
   \<not> IsNotExist ErrPermission \<and>
   DetectGolang lib0 fsDenied ''/r'' emptyOptions = ((False, Some ErrPermission), emptyOptions)"
  using detect_applicable_after_open [of fsDenied lib0 "''/r''" emptyOptions]
  by (simp add: fsDenied_def)

text \<open>
  C1. When the manifest was read, none of the four probes fails and at least one of the
  conventional source directories \<open>src\<close>, \<open>internal\<close>, \<open>pkg\<close>, \<open>cmd\<close> exists under the
  root, detection appends exactly the existing ones, in the order of that list, to both
  \<open>Directories\<close> (sourceRoots) and \<open>GoDirectories\<close> (ecosystemSourceRoots), whatever the
  other subdirectories hold and whatever happens later in the run: the guard of the
  fallback, \<open>len(options.GoDirectories) == 0\<close>, is false after the first loop, so the
  fallback step neither scans nor fails. Conversely, a name outside the conventional
  list that detection has added to \<open>GoDirectories\<close> comes from the fallback: then no
  conventional directory exists, and the name is that of a subdirectory in the listing
  of the root that directly holds a \<open>.go\<close> file.
\<close>

theorem conventional_directories_exclude_fallback:
  "(Open fs (filepath_Join lib rootPath ''go.mod'') = Inr gomod \<and>
    ReadAll fs gomod = Inr contents \<and>
    (\<forall>d\<in>set srcDirs. isOK (directoryExists fs rootPath d)) \<and>
    (\<exists>d\<in>set srcDirs. directoryExists fs rootPath d = Inr True) \<longrightarrow>
      Directories (snd (DetectGolang lib fs rootPath options)) =
        Directories options @ existing fs rootPath srcDirs \<and>
      GoDirectories (snd (DetectGolang lib fs rootPath options)) =
        GoDirectories options @ existing fs rootPath srcDirs \<and>
      length (GoDirectories (snd (srcDirLoop fs rootPath srcDirs
          (options\<lparr>CanonicalPath := ModulePath lib contents\<rparr>)))) \<noteq> 0 \<and>
      fallbackStep lib fs rootPath (snd (srcDirLoop fs rootPath srcDirs
          (options\<lparr>CanonicalPath := ModulePath lib contents\<rparr>))) =
        (None, snd (srcDirLoop fs rootPath srcDirs
          (options\<lparr>CanonicalPath := ModulePath lib contents\<rparr>)))) \<and>
   (\<forall>d. d \<in> set (GoDirectories (snd (DetectGolang lib fs rootPath options))) \<and>
        d \<notin> set (GoDirectories options) \<and> d \<notin> set srcDirs \<longrightarrow>
      (\<forall>c\<in>set srcDirs. directoryExists fs rootPath c \<noteq> Inr True) \<and>
      GoDirectories options = [] \<and>
      (\<exists>topLevel item. ReadDir fs rootPath = Inr topLevel \<and> item \<in> set topLevel \<and>
         Name item = d \<and> goDir lib fs rootPath item))"
  using conventional_found [of fs lib rootPath gomod contents options]
    fallback_only [of _ lib fs rootPath options]
  by blast

theorem conventional_directories_exclude_fallback_witness:
  "Open fsApp (filepath_Join lib0 ''/r'' ''go.mod'') = Inr 3 \<and>
   ReadAll fsApp 3 = Inr ''module example.org/app'' \<and>
   list_all (\<lambda>d. isOK (directoryExists fsApp ''/r'' d)) srcDirs \<and>
   directoryExists fsApp ''/r'' ''pkg'' = Inr True \<and>
   goDir lib0 fsApp ''/r'' \<lparr>Name = ''tools'', IsDir = True\<rparr> \<and>
   Directories (snd (DetectGolang lib0 fsApp ''/r'' emptyOptions)) = [''internal'', ''pkg'', ''cmd''] \<and>
   GoDirectories (snd (DetectGolang lib0 fsApp ''/r'' emptyOptions)) = [''internal'', ''pkg'', ''cmd''] \<and>
   ''tools'' \<in> set (GoDirectories (snd (DetectGolang lib0 fsFlat ''/flat'' emptyOptions))) \<and>
   ''tools'' \<notin> set (GoDirectories emptyOptions) \<and> ''tools'' \<notin> set srcDirs \<and>
   existing fsFlat ''/flat'' srcDirs = [] \<and>
   goDir lib0 fsFlat ''/flat'' \<lparr>Name = ''tools'', IsDir = True\<rparr>"
proof -
  have h1: "Open fsApp (filepath_Join lib0 ''/r'' ''go.mod'') = Inr 3"
    and h2: "ReadAll fsApp 3 = Inr ''module example.org/app''"
    by (simp_all add: fsApp_def lib0_def)
  have h3: "\<forall>d\<in>set srcDirs. isOK (directoryExists fsApp ''/r'' d)"
    by (simp add: fsApp_def srcDirs_def)
  have h4: "directoryExists fsApp ''/r'' ''pkg'' = Inr True"
    by (simp add: fsApp_def)
  then have h5: "\<exists>d\<in>set srcDirs. directoryExists fsApp ''/r'' d = Inr True"
    by (simp add: srcDirs_def)
  have ex: "existing fsApp ''/r'' srcDirs = [''internal'', ''pkg'', ''cmd'']"
    by (simp add: existing_def srcDirs_def fsApp_def)
  have g1: "goDir lib0 fsApp ''/r'' \<lparr>Name = ''tools'', IsDir = True\<rparr>"
    by (simp add: goDir_def hasGoFiles_def fsApp_def lib0_def HasSuffix_def)
  have f1: "''tools'' \<in> set (GoDirectories (snd (DetectGolang lib0 fsFlat ''/flat'' emptyOptions)))"
    by code_simp
  have f2: "''tools'' \<notin> set (GoDirectories emptyOptions)" "''tools'' \<notin> set srcDirs"
    by (simp_all add: emptyOptions_def srcDirs_def)
  from conventional_directories_exclude_fallback
    [of fsApp lib0 "''/r''" 3 "''module example.org/app''" emptyOptions] h1 h2 h3 h5
  have a: "Directories (snd (DetectGolang lib0 fsApp ''/r'' emptyOptions)) =
             Directories emptyOptions @ existing fsApp ''/r'' srcDirs"
    "GoDirectories (snd (DetectGolang lib0 fsApp ''/r'' emptyOptions)) =
             GoDirectories emptyOptions @ existing fsApp ''/r'' srcDirs"
    by blast+
  from conventional_directories_exclude_fallback
    [of fsFlat lib0 "''/flat''" 3 "''module example.org/flat''" emptyOptions] f1 f2
  obtain topLevel item where b: "\<forall>c\<in>set srcDirs. directoryExists fsFlat ''/flat'' c \<noteq> Inr True"
    "ReadDir fsFlat ''/flat'' = Inr topLevel" "item \<in> set topLevel" "Name item = ''tools''"
    "goDir lib0 fsFlat ''/flat'' item"
    by blast
  from b(1) have b1: "existing fsFlat ''/flat'' srcDirs = []"
    using existing_nonempty_iff [of fsFlat "''/flat''" srcDirs] by blast
  from b(2-5) have b2: "goDir lib0 fsFlat ''/flat'' \<lparr>Name = ''tools'', IsDir = True\<rparr>"
    by (auto simp: fsFlat_def)
  from h3 have h3': "list_all (\<lambda>d. isOK (directoryExists fsApp ''/r'' d)) srcDirs"
    by (simp add: list_all_iff)
  show ?thesis
    using h1 h2 h3' h4 g1 a ex f1 f2 b1 b2 by (simp add: emptyOptions_def)
qed

text \<open>
  C3, as the spec states it: the first existing candidate of \<open>pkg/version\<close>,
  \<open>internal/version\<close> wins. The loop has no early exit, so this fails where both
  exist: in the project \<open>/r\<close> both directories exist and detection succeeds, and the
  version package is not the canonical path joined with \<open>pkg/version\<close>.
\<close>

theorem version_first_match_counterexample:
  "directoryExists fsApp ''/r'' ''pkg/version'' = Inr True \<and>
   directoryExists fsApp ''/r'' ''internal/version'' = Inr True \<and>
   fst (DetectGolang lib0 fsApp ''/r'' emptyOptions) = (True, None) \<and>
   VersionPackage (snd (DetectGolang lib0 fsApp ''/r'' emptyOptions)) \<noteq>
     path_Join lib0 (CanonicalPath (snd (DetectGolang lib0 fsApp ''/r'' emptyOptions))) ''pkg/version''"
  by (simp add: app_eval) (simp add: fsApp_def lib0_def)

text \<open>
  C3, amended. A run that succeeds has probed every candidate of the list, and the last
  existing candidate wins: \<open>VersionPackage\<close> is the canonical path joined with
  \<open>internal/version\<close> when that directory exists, else with \<open>pkg/version\<close> when that
  one exists, else it is what it was before the run.
\<close>

theorem version_last_match_wins:
  assumes "DetectGolang lib fs rootPath options = ((True, None), options')"
  shows "list_all (\<lambda>c. isOK (directoryExists fs rootPath c)) versionCandidates \<and>
         VersionPackage options' =
           (if directoryExists fs rootPath ''internal/version'' = Inr True
            then path_Join lib (CanonicalPath options') ''internal/version''
            else if directoryExists fs rootPath ''pkg/version'' = Inr True
            then path_Join lib (CanonicalPath options') ''pkg/version''
            else VersionPackage options)"
proof -
  from assms obtain contents where
    ok: "bodyOK lib fs rootPath (GoDirectories options)"
    and o': "options' = detected lib fs rootPath contents options"
    by (auto simp: DetectGolang_success)
  from ok have "list_all (\<lambda>c. isOK (directoryExists fs rootPath c)) versionCandidates"
    by (simp add: bodyOK_def list_all_iff)
  moreover have "VersionPackage options' =
           (if directoryExists fs rootPath ''internal/version'' = Inr True
            then path_Join lib (CanonicalPath options') ''internal/version''
            else if directoryExists fs rootPath ''pkg/version'' = Inr True
            then path_Join lib (CanonicalPath options') ''pkg/version''
            else VersionPackage options)"
    by (simp add: o' detected_def versionPick_def last_existing_candidates)
  ultimately show ?thesis by simp
qed

theorem version_last_match_wins_witness:
  "DetectGolang lib0 fsApp ''/r'' emptyOptions =
     ((True, None), snd (DetectGolang lib0 fsApp ''/r'' emptyOptions)) \<and>
   directoryExists fsApp ''/r'' ''pkg/version'' = Inr True \<and>
   directoryExists fsApp ''/r'' ''internal/version'' = Inr True \<and>
   VersionPackage (snd (DetectGolang lib0 fsApp ''/r'' emptyOptions)) =
     path_Join lib0 (CanonicalPath (snd (DetectGolang lib0 fsApp ''/r'' emptyOptions))) ''internal/version''"
proof -
  have h: "DetectGolang lib0 fsApp ''/r'' emptyOptions =
     ((True, None), snd (DetectGolang lib0 fsApp ''/r'' emptyOptions))"
    by (simp add: app_eval)
  have e: "directoryExists fsApp ''/r'' ''pkg/version'' = Inr True"
    "directoryExists fsApp ''/r'' ''internal/version'' = Inr True"
    by (simp_all add: fsApp_def)
  from version_last_match_wins [OF h] e h show ?thesis by simp
qed

text \<open>
  C8. After a successful run that started from the empty descriptor, \<open>GoDirectories\<close>
  is a subset of \<open>Directories\<close> and \<open>GoSourceFiles\<close> a subset of \<open>SourceFiles\<close>;
  \<open>SourceFiles\<close> is \<open>GoSourceFiles\<close> followed by \<open>go.mod\<close> and \<open>go.sum\<close>, and neither
  of the two names is in \<open>GoSourceFiles\<close>; and \<open>Commands\<close> is empty when the directory
  \<open>cmd\<close> does not exist.
\<close>

theorem detect_subset_invariants:
  assumes "DetectGolang lib fs rootPath emptyOptions = ((True, None), options')"
  shows "set (GoDirectories options') \<subseteq> set (Directories options') \<and>
         set (GoSourceFiles options') \<subseteq> set (SourceFiles options') \<and>
         SourceFiles options' = GoSourceFiles options' @ [''go.mod'', ''go.sum''] \<and>
         ''go.mod'' \<notin> set (GoSourceFiles options') \<and>
         ''go.sum'' \<notin> set (GoSourceFiles options') \<and>
         (directoryExists fs rootPath ''cmd'' \<noteq> Inr True \<longrightarrow> Commands options' = [])"
proof -
  from assms obtain contents where
    o': "options' = detected lib fs rootPath contents emptyOptions"
    by (auto simp: DetectGolang_success)
  have "\<not> HasSuffix ''go.mod'' ''.go''" "\<not> HasSuffix ''go.sum'' ''.go''"
    by (simp_all add: HasSuffix_def)
  then have "''go.mod'' \<notin> set (rootGoFiles fs rootPath)" "''go.sum'' \<notin> set (rootGoFiles fs rootPath)"
    using rootGoFiles_suffix by blast+
  then show ?thesis
    by (auto simp: o' detected_def emptyOptions_def commandNames_def)
qed

theorem detect_subset_invariants_witness:
  "DetectGolang lib0 fsApp ''/r'' emptyOptions =
     ((True, None), snd (DetectGolang lib0 fsApp ''/r'' emptyOptions)) \<and>
   set (GoDirectories (snd (DetectGolang lib0 fsApp ''/r'' emptyOptions))) \<subseteq>
     set (Directories (snd (DetectGolang lib0 fsApp ''/r'' emptyOptions))) \<and>
   set (GoSourceFiles (snd (DetectGolang lib0 fsApp ''/r'' emptyOptions))) \<subseteq>
     set (SourceFiles (snd (DetectGolang lib0 fsApp ''/r'' emptyOptions))) \<and>
   SourceFiles (snd (DetectGolang lib0 fsApp ''/r'' emptyOptions)) =
     GoSourceFiles (snd (DetectGolang lib0 fsApp ''/r'' emptyOptions)) @ [''go.mod'', ''go.sum''] \<and>
   directoryExists fsFlat ''/flat'' ''cmd'' \<noteq> Inr True \<and>
   DetectGolang lib0 fsFlat ''/flat'' emptyOptions =
     ((True, None), snd (DetectGolang lib0 fsFlat ''/flat'' emptyOptions)) \<and>
   Commands (snd (DetectGolang lib0 fsFlat ''/flat'' emptyOptions)) = []"
proof -
  have h: "DetectGolang lib0 fsApp ''/r'' emptyOptions =
     ((True, None), snd (DetectGolang lib0 fsApp ''/r'' emptyOptions))"
    by (simp add: app_eval)
  have h': "DetectGolang lib0 fsFlat ''/flat'' emptyOptions =
     ((True, None), snd (DetectGolang lib0 fsFlat ''/flat'' emptyOptions))"
    by (simp add: flat_eval)
  have c: "directoryExists fsFlat ''/flat'' ''cmd'' \<noteq> Inr True" by (simp add: fsFlat_def)
  from detect_subset_invariants [OF h] detect_subset_invariants [OF h'] c h h'
  show ?thesis by blast
qed

text \<open>
  C5, as the spec states it: detection is idempotent. The detector appends to the
  descriptor it is given, so a second run on the descriptor of a first run does not
  return it equal in every field: in the project \<open>/r\<close> both runs succeed, and the second
  one returns \<open>SourceFiles\<close> with \<open>main.go\<close>, \<open>go.mod\<close> and \<open>go.sum\<close> twice.
\<close>

theorem detect_twice_counterexample:
  "fst (DetectGolang lib0 fsApp ''/r'' emptyOptions) = (True, None) \<and>
   fst (DetectGolang lib0 fsApp ''/r'' (snd (DetectGolang lib0 fsApp ''/r'' emptyOptions))) = (True, None) \<and>
   SourceFiles (snd (DetectGolang lib0 fsApp ''/r'' emptyOptions)) = [''main.go'', ''go.mod'', ''go.sum''] \<and>
   SourceFiles (snd (DetectGolang lib0 fsApp ''/r'' (snd (DetectGolang lib0 fsApp ''/r'' emptyOptions)))) =
     [''main.go'', ''go.mod'', ''go.sum'', ''main.go'', ''go.mod'', ''go.sum''] \<and>
   snd (DetectGolang lib0 fsApp ''/r'' (snd (DetectGolang lib0 fsApp ''/r'' emptyOptions))) \<noteq>
     snd (DetectGolang lib0 fsApp ''/r'' emptyOptions)"
  by (simp add: app_eval2) (simp add: app_eval)

text \<open>
  C5, amended. Detection is deterministic: two runs from the same descriptor against
  file systems that answer alike to opening \<open>go.mod\<close> under the root, to reading a
  file, to \<open>directoryExists\<close> under the root and to listing a directory return the same
  flag, the same error and descriptors equal in every field. It is idempotent only up
  to repetition: a second run on the descriptor that a successful first run returned
  succeeds too and leaves \<open>CanonicalPath\<close>, \<open>VersionPackage\<close> and every field outside
  the seven as they were, and every list field with the same set of entries; but it
  appends again, so \<open>SourceFiles\<close> is longer by the \<open>.go\<close> files of the root, \<open>go.mod\<close>
  and \<open>go.sum\<close>.
\<close>

theorem detect_deterministic_rerun_appends:
  "(Open fs (filepath_Join lib rootPath ''go.mod'') = Open fs' (filepath_Join lib rootPath ''go.mod'') \<and>
    ReadAll fs = ReadAll fs' \<and> directoryExists fs rootPath = directoryExists fs' rootPath \<and>
    ReadDir fs = ReadDir fs' \<longrightarrow>
      DetectGolang lib fs rootPath options = DetectGolang lib fs' rootPath options) \<and>
   (\<forall>options1. DetectGolang lib fs rootPath options = ((True, None), options1) \<longrightarrow>
      (\<exists>options2. DetectGolang lib fs rootPath options1 = ((True, None), options2) \<and>
         CanonicalPath options2 = CanonicalPath options1 \<and>
         VersionPackage options2 = VersionPackage options1 \<and>
         set (Directories options2) = set (Directories options1) \<and>
         set (GoDirectories options2) = set (GoDirectories options1) \<and>
         set (SourceFiles options2) = set (SourceFiles options1) \<and>
         set (GoSourceFiles options2) = set (GoSourceFiles options1) \<and>
         set (Commands options2) = set (Commands options1) \<and>
         SourceFiles options2 =
           SourceFiles options1 @ rootGoFiles fs rootPath @ [''go.mod'', ''go.sum''] \<and>
         Options.more options2 = Options.more options1))"
  using DetectGolang_cong [of fs lib rootPath fs' options] detect_rerun [of lib fs rootPath options]
  by blast

theorem detect_deterministic_rerun_appends_witness:
  "Open fsApp (filepath_Join lib0 ''/r'' ''go.mod'') = Open fsApp' (filepath_Join lib0 ''/r'' ''go.mod'') \<and>
   ReadAll fsApp = ReadAll fsApp' \<and> directoryExists fsApp ''/r'' = directoryExists fsApp' ''/r'' \<and>
   ReadDir fsApp = ReadDir fsApp' \<and> fsApp \<noteq> fsApp' \<and>
   DetectGolang lib0 fsApp ''/r'' emptyOptions = DetectGolang lib0 fsApp' ''/r'' emptyOptions \<and>
   DetectGolang lib0 fsApp ''/r'' emptyOptions =
     ((True, None), snd (DetectGolang lib0 fsApp ''/r'' emptyOptions)) \<and>
   (\<exists>options2. DetectGolang lib0 fsApp ''/r'' (snd (DetectGolang lib0 fsApp ''/r'' emptyOptions)) =
       ((True, None), options2) \<and>
      set (SourceFiles options2) = set (SourceFiles (snd (DetectGolang lib0 fsApp ''/r'' emptyOptions))) \<and>
      SourceFiles options2 =
        SourceFiles (snd (DetectGolang lib0 fsApp ''/r'' emptyOptions)) @
          rootGoFiles fsApp ''/r'' @ [''go.mod'', ''go.sum''])"
proof -
  have a: "Open fsApp (filepath_Join lib0 ''/r'' ''go.mod'') = Open fsApp' (filepath_Join lib0 ''/r'' ''go.mod'')"
    "ReadAll fsApp = ReadAll fsApp'" "directoryExists fsApp ''/r'' = directoryExists fsApp' ''/r''"
    "ReadDir fsApp = ReadDir fsApp'"
    by (simp_all add: fsApp'_def fsApp_def lib0_def)
  have ne: "fsApp \<noteq> fsApp'"
  proof
    assume "fsApp = fsApp'"
    then have "Open fsApp ''/x'' = Open fsApp' ''/x''" by simp
    then show False by (simp add: fsApp'_def fsApp_def)
  qed
  have h: "DetectGolang lib0 fsApp ''/r'' emptyOptions =
     ((True, None), snd (DetectGolang lib0 fsApp ''/r'' emptyOptions))"
    by (simp add: app_eval)
  note T = detect_deterministic_rerun_appends [of fsApp lib0 "''/r''" fsApp' emptyOptions]
  from T a have d: "DetectGolang lib0 fsApp ''/r'' emptyOptions = DetectGolang lib0 fsApp' ''/r'' emptyOptions"
    by blast
  from T h obtain options2 where
    "DetectGolang lib0 fsApp ''/r'' (snd (DetectGolang lib0 fsApp ''/r'' emptyOptions)) =
       ((True, None), options2)"
    "set (SourceFiles options2) = set (SourceFiles (snd (DetectGolang lib0 fsApp ''/r'' emptyOptions)))"
    "SourceFiles options2 =
        SourceFiles (snd (DetectGolang lib0 fsApp ''/r'' emptyOptions)) @
          rootGoFiles fsApp ''/r'' @ [''go.mod'', ''go.sum'']"
    by blast
  with a ne d h show ?thesis by blast
qed

section \<open>Properties of the pipeline graph\<close>

subsection \<open>The closed form and the stages\<close>

lemma length_allCommandNodes [simp]:
  "length (allCommandNodes lib tc lint ut b cmds) = 5 * length cmds"
  by (induction cmds arbitrary: b) (simp_all add: commandNodes_def)

lemma processCommands_step:
  "processCommands lib meta tc lint ut (cmd # cmds) outs s =
   processCommands lib meta tc lint ut cmds (outs @ [length s, length s + 1])
     (s @ commandNodes lib tc lint ut (length s) cmd)"
  by (simp add: NewBuild_def NewImage_def NewFHS_def NewCACerts_def Drone_def newNode_def
      AddInput_def commandNodes_def mkNode_def nth_append list_update_append Let_def
      eval_nat_numeral)

lemma processCommands_eq:
  "processCommands lib meta tc lint ut cmds outs s =
     (outs @ commandOutputs (length s) cmds, s @ allCommandNodes lib tc lint ut (length s) cmds)"
proof (induction cmds arbitrary: outs s)
  case Nil
  show ?case by simp
next
  case (Cons cmd cmds)
  have "length (s @ commandNodes lib tc lint ut (length s) cmd) = length s + 5"
    by (simp add: commandNodes_def)
  then show ?case
    unfolding processCommands_step Cons.IH by simp
qed

lemma BuildGolang_eq:
  "BuildGolang lib meta inputs s =
     (([length s + 3, length s + 4, length s + 5] @ commandOutputs (length s + 6) (Commands meta), None),
      s @ fixedNodes (length s) inputs @
        allCommandNodes lib (length s) (length s + 3) (length s + 4) (length s + 6) (Commands meta))"
  by (simp add: BuildGolang_def NewToolchain_def NewGolangciLint_def NewGofumpt_def NewLint_def
      NewUnitTests_def NewCodeCov_def newNode_def AddInput_def SetInputPath_def fixedNodes_def
      mkNode_def nth_append list_update_append Let_def processCommands_eq eval_nat_numeral)

lemma allCommandNodes_kinds:
  "nd \<in> set (allCommandNodes lib tc lint ut b cmds) \<Longrightarrow>
   kind nd \<notin> {Toolchain, GolangciLint, Gofumpt, Lint, UnitTests, CodeCov}"
  by (induction cmds arbitrary: b) (auto simp: commandNodes_def mkNode_def)

lemma filter_none: "(\<And>x. x \<in> set xs \<Longrightarrow> \<not> P x) \<Longrightarrow> filter P xs = []"
  by (simp add: filter_empty_conv)


lemma length_commandNodes [simp]: "length (commandNodes lib tc lint ut b cmd) = 5"
  by (simp add: commandNodes_def)

lemma length_fixedNodes [simp]: "length (fixedNodes n inputs) = 6"
  by (simp add: fixedNodes_def)
















subsection \<open>The claims about the build\<close>

text \<open>
  C2. For a descriptor with the commands \<open>a\<close> and \<open>b\<close>, whatever the upstream nodes
  and the store, the build returns seven nodes: the lint, unit-test and coverage nodes,
  then the compile node and the image node of \<open>a\<close>, then those of \<open>b\<close>. The only input
  of each compile node is the toolchain node. The inputs of each image node are its own
  compile node, its own FHS and CA-certificate nodes, the one lint node and its own
  adapter of the unit-test node. The build constructs sixteen nodes in all.
\<close>

theorem build_two_commands:
  assumes "Commands meta = [''a'', ''b'']"
  shows "fst (fst (BuildGolang lib meta inputs s)) =
           [length s + 3, length s + 4, length s + 5,
            length s + 6, length s + 7, length s + 11, length s + 12] \<and>
         kind (snd (BuildGolang lib meta inputs s) ! (length s + 3)) = Lint \<and>
         kind (snd (BuildGolang lib meta inputs s) ! (length s + 4)) = UnitTests \<and>
         kind (snd (BuildGolang lib meta inputs s) ! (length s + 5)) = CodeCov \<and>
         kind (snd (BuildGolang lib meta inputs s) ! (length s + 6)) =
           Build ''a'' (filepath_Join lib ''cmd'' ''a'') \<and>
         kind (snd (BuildGolang lib meta inputs s) ! (length s + 7)) = Image ''a'' \<and>
         kind (snd (BuildGolang lib meta inputs s) ! (length s + 11)) =
           Build ''b'' (filepath_Join lib ''cmd'' ''b'') \<and>
         kind (snd (BuildGolang lib meta inputs s) ! (length s + 12)) = Image ''b'' \<and>
         kind (snd (BuildGolang lib meta inputs s) ! length s) = Toolchain \<and>
         Inputs (snd (BuildGolang lib meta inputs s) ! (length s + 6)) = [length s] \<and>
         Inputs (snd (BuildGolang lib meta inputs s) ! (length s + 11)) = [length s] \<and>
         Inputs (snd (BuildGolang lib meta inputs s) ! (length s + 7)) =
           [length s + 6, length s + 8, length s + 9, length s + 3, length s + 10] \<and>
         Inputs (snd (BuildGolang lib meta inputs s) ! (length s + 12)) =
           [length s + 11, length s + 13, length s + 14, length s + 3, length s + 15] \<and>
         length (snd (BuildGolang lib meta inputs s)) = length s + 16"
  by (simp add: BuildGolang_eq assms nth_append fixedNodes_def commandNodes_def mkNode_def)

theorem build_two_commands_witness:
  "Commands metaAB = [''a'', ''b''] \<and>
   fst (fst (BuildGolang lib0 metaAB [1] store1)) = [5, 6, 7, 8, 9, 13, 14] \<and>
   kind (snd (BuildGolang lib0 metaAB [1] store1) ! 5) = Lint \<and>
   kind (snd (BuildGolang lib0 metaAB [1] store1) ! 8) = Build ''a'' ''cmd/a'' \<and>
   kind (snd (BuildGolang lib0 metaAB [1] store1) ! 9) = Image ''a'' \<and>
   kind (snd (BuildGolang lib0 metaAB [1] store1) ! 13) = Build ''b'' ''cmd/b'' \<and>
   kind (snd (BuildGolang lib0 metaAB [1] store1) ! 14) = Image ''b'' \<and>
   kind (snd (BuildGolang lib0 metaAB [1] store1) ! 2) = Toolchain \<and>
   Inputs (snd (BuildGolang lib0 metaAB [1] store1) ! 8) = [2] \<and>
   Inputs (snd (BuildGolang lib0 metaAB [1] store1) ! 13) = [2] \<and>
   Inputs (snd (BuildGolang lib0 metaAB [1] store1) ! 9) = [8, 10, 11, 5, 12] \<and>
   Inputs (snd (BuildGolang lib0 metaAB [1] store1) ! 14) = [13, 15, 16, 5, 17]"
proof -
  have h: "Commands metaAB = [''a'', ''b'']" by (simp add: metaAB_def)
  have l: "length store1 = 2" by (simp add: store1_def)
  have p: "filepath_Join lib0 ''cmd'' ''a'' = ''cmd/a''" "filepath_Join lib0 ''cmd'' ''b'' = ''cmd/b''"
    by (simp_all add: lib0_def)
  from build_two_commands [OF h, of lib0 "[1]" store1] h
  show ?thesis by (simp add: l p)
qed




text \<open>
  C7. Among the nodes a build constructs there is exactly one toolchain node, the first;
  its inputs are the provided upstream nodes followed by the two static-analysis nodes,
  the linter and the formatter, which are the only nodes of their kinds. There is
  exactly one lint node; its inputs are the toolchain node and the two static-analysis
  nodes. The upstream nodes are left as they were.
\<close>

theorem build_toolchain_and_lint:
  "take (length s) (snd (BuildGolang lib meta inputs s)) = s \<and>
   filter (\<lambda>nd. kind nd = Toolchain) (drop (length s) (snd (BuildGolang lib meta inputs s))) =
     [snd (BuildGolang lib meta inputs s) ! length s] \<and>
   Inputs (snd (BuildGolang lib meta inputs s) ! length s) = inputs @ [length s + 1, length s + 2] \<and>
   map kind (filter (\<lambda>nd. kind nd = GolangciLint \<or> kind nd = Gofumpt)
        (drop (length s) (snd (BuildGolang lib meta inputs s)))) = [GolangciLint, Gofumpt] \<and>
   kind (snd (BuildGolang lib meta inputs s) ! (length s + 1)) = GolangciLint \<and>
   kind (snd (BuildGolang lib meta inputs s) ! (length s + 2)) = Gofumpt \<and>
   filter (\<lambda>nd. kind nd = Lint) (drop (length s) (snd (BuildGolang lib meta inputs s))) =
     [snd (BuildGolang lib meta inputs s) ! (length s + 3)] \<and>
   Inputs (snd (BuildGolang lib meta inputs s) ! (length s + 3)) =
     [length s, length s + 1, length s + 2]"
proof -
  let ?C = "allCommandNodes lib (length s) (length s + 3) (length s + 4) (length s + 6) (Commands meta)"
  have 1: "filter (\<lambda>nd. kind nd = Toolchain) ?C = []"
    by (rule filter_none) (auto dest: allCommandNodes_kinds)
  have 2: "filter (\<lambda>nd. kind nd = GolangciLint \<or> kind nd = Gofumpt) ?C = []"
    by (rule filter_none) (auto dest: allCommandNodes_kinds)
  have 3: "filter (\<lambda>nd. kind nd = Lint) ?C = []"
    by (rule filter_none) (auto dest: allCommandNodes_kinds)
  show ?thesis
    by (simp add: BuildGolang_eq nth_append 1 2 3) (simp add: fixedNodes_def mkNode_def)
qed

theorem build_toolchain_and_lint_witness:
  "take (length store1) (snd (BuildGolang lib0 metaAB [1] store1)) = store1 \<and>
   Inputs (snd (BuildGolang lib0 metaAB [1] store1) ! 2) = [1, 3, 4] \<and>
   kind (snd (BuildGolang lib0 metaAB [1] store1) ! 3) = GolangciLint \<and>
   kind (snd (BuildGolang lib0 metaAB [1] store1) ! 4) = Gofumpt \<and>
   Inputs (snd (BuildGolang lib0 metaAB [1] store1) ! 5) = [2, 3, 4]"
proof -
  have l: "length store1 = 2" by (simp add: store1_def)
  from build_toolchain_and_lint [of store1 lib0 metaAB "[1]"]
  show ?thesis by (simp add: l)
qed

text \<open>
  C10. The build returns no error and a list that is not empty: it starts with the lint
  node, the unit-test node and the coverage node.
\<close>

theorem build_never_fails:
  "snd (fst (BuildGolang lib meta inputs s)) = None \<and>
   fst (fst (BuildGolang lib meta inputs s)) \<noteq> [] \<and>
   take 3 (fst (fst (BuildGolang lib meta inputs s))) = [length s + 3, length s + 4, length s + 5] \<and>
   kind (snd (BuildGolang lib meta inputs s) ! (length s + 3)) = Lint \<and>
   kind (snd (BuildGolang lib meta inputs s) ! (length s + 4)) = UnitTests \<and>
   kind (snd (BuildGolang lib meta inputs s) ! (length s + 5)) = CodeCov"
  by (simp add: BuildGolang_eq nth_append fixedNodes_def mkNode_def)

theorem build_never_fails_witness:
  "snd (fst (BuildGolang lib0 metaAB [1] store1)) = None \<and>
   take 3 (fst (fst (BuildGolang lib0 metaAB [1] store1))) = [5, 6, 7] \<and>
   kind (snd (BuildGolang lib0 metaAB [1] store1) ! 5) = Lint \<and>
   kind (snd (BuildGolang lib0 metaAB [1] store1) ! 6) = UnitTests \<and>
   kind (snd (BuildGolang lib0 metaAB [1] store1) ! 7) = CodeCov"
proof -
  have l: "length store1 = 2" by (simp add: store1_def)
  from build_never_fails [of lib0 metaAB "[1]" store1]
  show ?thesis by (simp add: l)
qed

end
